theory Spec2Isabelle
  imports Complex_Main "HOL-Library.Char_ord" "HOL-Library.List_Lexorder" "HOL-Library.Option_ord"
    "HOL-Library.Multiset" "HOL-Library.Sublist"
begin

section \<open>Data model\<close>

text \<open>
  The script \<^verbatim>\<open>healthcare-data-analysis.py\<close> drives a dataframe engine and a document
  store. A dataframe is a list of column names and a list of positional rows; a cell
  is \<open>None\<close> for SQL null. The type \<open>'v\<close> of raw cell values is what the engine
  inferred when it read the CSV file; it is ordered, since the script sorts on
  \<^verbatim>\<open>diagnosis_date\<close>.
\<close>

record 'v dataframe =
  columns :: "string list"
  rows :: "'v option list list"

text \<open>The value of column \<open>c\<close> in a positional row; null when the row is too short.\<close>

definition cell :: "string list \<Rightarrow> 'v option list \<Rightarrow> string \<Rightarrow> 'v option" where
  "cell cols r c = (case map_of (zip cols r) c of None \<Rightarrow> None | Some v \<Rightarrow> v)"

text \<open>
  The engine's scalar operations that the script calls by name and that are not code of
  this repository: \<^verbatim>\<open>CAST(x AS STRING)\<close> and \<^verbatim>\<open>CAST(x AS INT)\<close> on a non-null cell
  (the second may give null), the cast of a string literal to the type of the
  \<^verbatim>\<open>diagnosis_date\<close> column (what \<^verbatim>\<open>fillna\<close> does with a string replacement), and
  \<^verbatim>\<open>dayofweek\<close>.
\<close>

record 'v engine =
  cast_string :: "'v \<Rightarrow> string"
  cast_int :: "'v \<Rightarrow> int option"
  cast_literal :: "string \<Rightarrow> 'v option"
  dayofweek :: "'v \<Rightarrow> int option"

text \<open>
  A row of the six-column table that lines 64-70 select, in the order of the select:
  \<^verbatim>\<open>patient_id\<close> is field 0.
\<close>

record 'v patient =
  patient_id :: "string option"
  age :: "int option"
  gender :: "string option"
  diagnosis_code :: "string option"
  diagnosis_description :: "string option"
  diagnosis_date :: "'v option"

record cleaning_report =
  missing_columns :: "string list"
  duplicate_records :: nat
  columns_with_null_count :: "(string \<times> nat) list"

datatype error =
    ValueError string
  | TypeError
  | Py4JJavaError
  | AnalysisException string
  | OverflowError

section \<open>data\_quality\_check\<close>

definition mandatory_fields :: "string list" where
  "mandatory_fields = [''patient_id'', ''age'', ''gender'', ''diagnosis_code'',
     ''diagnosis_description'', ''diagnosis_date'']"

text \<open>
  Lines 54-59: the loop over the mandatory fields. The first absent column is appended
  to \<^verbatim>\<open>missing_col\<close> and the \<^verbatim>\<open>ValueError\<close> is raised at once, so the list that
  survives the loop is the one it started with.
\<close>

fun check_mandatory :: "string list \<Rightarrow> string list \<Rightarrow> string list \<Rightarrow> error + string list" where
  "check_mandatory cols [] missing_col = Inr missing_col"
| "check_mandatory cols (mandatory_col # rest) missing_col =
     (if mandatory_col \<notin> set cols then Inl (ValueError mandatory_col)
      else check_mandatory cols rest missing_col)"

text \<open>Lines 64-70: the casts and the projection on the six mandatory columns.\<close>

definition cast_row :: "'v engine \<Rightarrow> string list \<Rightarrow> 'v option list \<Rightarrow> 'v patient" where
  "cast_row eng cols r =
     \<lparr> patient_id = map_option (cast_string eng) (cell cols r ''patient_id''),
       age = Option.bind (cell cols r ''age'') (cast_int eng),
       gender = map_option (cast_string eng) (cell cols r ''gender''),
       diagnosis_code = map_option (cast_string eng) (cell cols r ''diagnosis_code''),
       diagnosis_description =
         map_option (cast_string eng) (cell cols r ''diagnosis_description''),
       diagnosis_date = cell cols r ''diagnosis_date'' \<rparr>"

definition cast_columns :: "'v engine \<Rightarrow> 'v dataframe \<Rightarrow> 'v patient list" where
  "cast_columns eng df = map (cast_row eng (columns df)) (rows df)"

text \<open>
  \<^verbatim>\<open>groupBy(keys).count()\<close>: one row per distinct key with the number of its
  occurrences. Grouping treats null as a value equal to itself, as \<open>None = None\<close> does.
\<close>

definition group_count :: "'k list \<Rightarrow> ('k \<times> nat) list" where
  "group_count ks = map (\<lambda>k. (k, count_list ks k)) (remdups ks)"

text \<open>Line 74: the number of groups of the full six-column key whose count exceeds 2.\<close>

definition count_duplicates :: "'v patient list \<Rightarrow> nat" where
  "count_duplicates df = length (filter (\<lambda>(k, n). n > 2) (group_count df))"

text \<open>
  Line 80: the null count of every column, read back through JSON as a dictionary.
  Over no rows every sum is null and the JSON object is empty.
\<close>

definition nulls_in :: "('r \<Rightarrow> 'a option) \<Rightarrow> 'r list \<Rightarrow> nat" where
  "nulls_in f df = length (filter (\<lambda>r. f r = None) df)"

definition null_count :: "'v patient list \<Rightarrow> (string \<times> nat) list" where
  "null_count df =
     (if df = [] then []
      else [(''patient_id'', nulls_in patient_id df), (''age'', nulls_in age df),
            (''gender'', nulls_in gender df), (''diagnosis_code'', nulls_in diagnosis_code df),
            (''diagnosis_description'', nulls_in diagnosis_description df),
            (''diagnosis_date'', nulls_in diagnosis_date df)])"

text \<open>
  The \<^verbatim>\<open>median\<close> aggregate is the exact percentile at 0.5: with the \<open>n\<close> values sorted,
  the mean of the values at positions \<open>(n - 1) div 2\<close> and \<open>n div 2\<close>; null over no
  values. The engine computes it as a double; the mean of two integers is exact there, so
  the model uses a rational.
\<close>

definition median :: "int list \<Rightarrow> rat option" where
  "median xs =
     (if xs = [] then None
      else let s = sort xs; n = length s
           in Some ((of_int (s ! ((n - 1) div 2)) + of_int (s ! (n div 2))) / 2))"

text \<open>The cast of a double to \<^verbatim>\<open>int\<close> drops the fraction (rounds toward zero).\<close>

definition double_to_int :: "rat \<Rightarrow> int" where
  "double_to_int q = (if 0 \<le> q then \<lfloor>q\<rfloor> else \<lceil>q\<rceil>)"

definition coalesce :: "'a option \<Rightarrow> 'a option \<Rightarrow> 'a option" where
  "coalesce a b = (case a of None \<Rightarrow> b | Some x \<Rightarrow> Some x)"

text \<open>
  \<^verbatim>\<open>df.fillna({column: value})\<close>: the engine rejects a null replacement; otherwise each
  null of the column becomes the replacement cast to the column's type. The \<^verbatim>\<open>age\<close>
  column is an \<^verbatim>\<open>int\<close> column (line 66) and its replacement is the double that
  \<^verbatim>\<open>median\<close> returned; the replacement of \<^verbatim>\<open>diagnosis_date\<close> is a Python string.
\<close>

definition fillna_age :: "rat option \<Rightarrow> 'v patient list \<Rightarrow> error + 'v patient list" where
  "fillna_age v df =
     (case v of
        None \<Rightarrow> Inl Py4JJavaError
      | Some q \<Rightarrow> Inr (map (\<lambda>r. r\<lparr>age := coalesce (age r) (Some (double_to_int q))\<rparr>) df))"

definition fillna_diagnosis_date ::
  "'v engine \<Rightarrow> string option \<Rightarrow> 'v patient list \<Rightarrow> error + 'v patient list" where
  "fillna_diagnosis_date eng v df =
     (case v of
        None \<Rightarrow> Inl Py4JJavaError
      | Some s \<Rightarrow>
          Inr (map (\<lambda>r. r\<lparr>diagnosis_date := coalesce (diagnosis_date r) (cast_literal eng s)\<rparr>)
                 df))"

text \<open>\<^verbatim>\<open>sort(desc(key))\<close>, descending and stable, and \<^verbatim>\<open>first()\<close>, \<open>None\<close> on no rows.\<close>

definition sort_desc :: "('r \<Rightarrow> 'k::linorder) \<Rightarrow> 'r list \<Rightarrow> 'r list" where
  "sort_desc f xs = rev (sort_key f (rev xs))"

definition first :: "'r list \<Rightarrow> 'r option" where
  "first xs = (case xs of [] \<Rightarrow> None | x # _ \<Rightarrow> Some x)"

text \<open>
  Lines 84-92. \<^verbatim>\<open>age_median\<close> is field 0 of the one-column aggregate row.
  \<^verbatim>\<open>latest_date\<close> is field 0 of the first row of the six-column table sorted by
  \<^verbatim>\<open>diagnosis_date\<close> descending: that field is \<^verbatim>\<open>patient_id\<close>. Subscripting the
  \<^verbatim>\<open>None\<close> that \<^verbatim>\<open>first()\<close> returns on no rows raises \<^verbatim>\<open>TypeError\<close>.
\<close>

definition drop_null_patient_id :: "'v patient list \<Rightarrow> 'v patient list" where
  "drop_null_patient_id df = filter (\<lambda>r. patient_id r \<noteq> None) df"

definition non_null_ages :: "'v patient list \<Rightarrow> int list" where
  "non_null_ages df = map (\<lambda>r. the (age r)) (filter (\<lambda>r. age r \<noteq> None) df)"

definition latest_row :: "('v::linorder) patient list \<Rightarrow> 'v patient option" where
  "latest_row df =
     first (sort_desc (\<lambda>r. the (diagnosis_date r)) (filter (\<lambda>r. diagnosis_date r \<noteq> None) df))"

definition data_quality_check ::
  "('v::linorder) engine \<Rightarrow> 'v dataframe \<Rightarrow> error + ('v patient list \<times> cleaning_report)" where
  "data_quality_check eng df0 =
     (case check_mandatory (columns df0) mandatory_fields [] of
        Inl e \<Rightarrow> Inl e
      | Inr missing_col \<Rightarrow>
          let df1 = cast_columns eng df0;
              dups = count_duplicates df1;
              nulls = null_count df1;
              df2 = drop_null_patient_id df1;
              age_median = median (non_null_ages df2)
          in (case fillna_age age_median df2 of
                Inl e \<Rightarrow> Inl e
              | Inr df3 \<Rightarrow>
                  (case latest_row df3 of
                     None \<Rightarrow> Inl TypeError
                   | Some latest \<Rightarrow>
                       (case fillna_diagnosis_date eng (patient_id latest) df3 of
                          Inl e \<Rightarrow> Inl e
                        | Inr df4 \<Rightarrow>
                            Inr (df4, \<lparr> missing_columns = missing_col,
                                       duplicate_records = dups,
                                       columns_with_null_count = nulls \<rparr>)))))"

section \<open>The document store and the files\<close>

text \<open>
  A document of one of the seven collections the script writes. \<open>RawRow\<close> pairs each
  column of the file with the row's cell; the other constructors carry the columns of
  the respective \<^verbatim>\<open>select\<close>, in its order.
\<close>

datatype 'v document =
    RawRow "(string \<times> 'v option) list"
  | CleaningReport cleaning_report
  | GenderRatio "string option" "rat option"
  | DiseaseCount "string option" nat
  | AgeCategory string "string option" "string option" nat
  | SeniorCitizen "string option" "int option" "string option" "string option" string
  | DiseaseTrend "'v option" "int option" nat

text \<open>
  The state outside the process: the CSV files by path (as the engine reads them, header
  and schema inferred), the two options of section \<^verbatim>\<open>DATE_FILEPATH\<close> of
  \<^verbatim>\<open>config.properties\<close>, and the collections of database \<^verbatim>\<open>healthcare_db\<close>.
\<close>

record 'v world =
  files :: "(string \<times> 'v dataframe) list"
  file_path :: string
  file_date :: string
  store :: "string \<Rightarrow> 'v document list"

text \<open>
  \<^verbatim>\<open>.format('mongo').mode('append').save()\<close> to a collection, as the connector named on
  line 23 does it. A row with a non-null \<^verbatim>\<open>_id\<close> field replaces the stored document
  that has this \<^verbatim>\<open>_id\<close>, and is inserted when there is none; any other row is inserted.
  Only a row of the raw file can have such a field: the other six writes have fixed columns.
\<close>

definition doc_id :: "'v document \<Rightarrow> 'v option" where
  "doc_id d =
     (case d of
        RawRow cells \<Rightarrow> (case map_of cells ''_id'' of Some (Some v) \<Rightarrow> Some v | _ \<Rightarrow> None)
      | _ \<Rightarrow> None)"

fun replace_first :: "'v \<Rightarrow> 'v document \<Rightarrow> 'v document list \<Rightarrow> 'v document list" where
  "replace_first i d [] = []"
| "replace_first i d (e # es) =
     (if doc_id e = Some i then d # es else e # replace_first i d es)"

definition write_document :: "'v document list \<Rightarrow> 'v document \<Rightarrow> 'v document list" where
  "write_document stored d =
     (case doc_id d of
        None \<Rightarrow> stored @ [d]
      | Some i \<Rightarrow>
          if Some i \<in> set (map doc_id stored) then replace_first i d stored else stored @ [d])"

definition mongo_append ::
  "string \<Rightarrow> 'v document list \<Rightarrow> (string \<Rightarrow> 'v document list) \<Rightarrow> string \<Rightarrow> 'v document list" where
  "mongo_append coll docs s = s(coll := foldl write_document (s coll) docs)"

definition collection_name :: string where
  "collection_name = ''healthcare_raw_data''"

definition get_date_filepath :: "'v world \<Rightarrow> string" where
  "get_date_filepath w = file_path w @ ''health_data_'' @ file_date w @ ''.csv''"

text \<open>Lines 31-48: load today's file, append its rows to the raw collection, return it.\<close>

definition read_and_save_raw_data :: "'v world \<Rightarrow> error + ('v dataframe \<times> 'v world)" where
  "read_and_save_raw_data w =
     (case map_of (files w) (get_date_filepath w) of
        None \<Rightarrow> Inl (AnalysisException ''Path does not exist'')
      | Some df \<Rightarrow>
          Inr (df, w\<lparr>store := mongo_append collection_name
                               (map (\<lambda>r. RawRow (zip (columns df) r)) (rows df)) (store w)\<rparr>))"

text \<open>Lines 272-290.\<close>

definition save_cleaning_report :: "cleaning_report \<Rightarrow> 'v world \<Rightarrow> 'v world" where
  "save_cleaning_report cleaning_report w =
     w\<lparr>store := mongo_append ''cleaning_report'' [CleaningReport cleaning_report] (store w)\<rparr>"

section \<open>The aggregations\<close>

text \<open>
  \<^verbatim>\<open>groupBy('diagnosis_code').pivot('gender').count()\<close> has one column per distinct
  gender and, in the row of a code, the number of rows of that code and gender, null when
  there is none; the column of the null gender is named \<^verbatim>\<open>null\<close>. The select on line 124
  resolves its three column references without regard to case, the engine's default: a
  reference that matches no column, or more than one, fails. Division gives a double, null
  when an operand is null or the divisor is 0; \<^verbatim>\<open>round(x, 2)\<close> rounds half up. Both are
  modelled on rationals.
\<close>

definition lower_char :: "char \<Rightarrow> char" where
  "lower_char c =
     (let n = (of_char c :: nat) in if 65 \<le> n \<and> n \<le> 90 then char_of (n + 32) else c)"

definition same_name :: "string \<Rightarrow> string \<Rightarrow> bool" where
  "same_name a b = (map lower_char a = map lower_char b)"

definition resolve :: "string list \<Rightarrow> string \<Rightarrow> error + string" where
  "resolve cols name =
     (case filter (same_name name) cols of
        [] \<Rightarrow> Inl (AnalysisException name)
      | [c] \<Rightarrow> Inr c
      | _ \<Rightarrow> Inl (AnalysisException name))"

definition pivot_columns :: "'v patient list \<Rightarrow> string list" where
  "pivot_columns df =
     map (\<lambda>g. case g of None \<Rightarrow> ''null'' | Some s \<Rightarrow> s) (remdups (map gender df))"

definition pivot_count :: "'v patient list \<Rightarrow> string option \<Rightarrow> string \<Rightarrow> nat option" where
  "pivot_count df c g =
     (let n = length (filter (\<lambda>r. diagnosis_code r = c \<and> gender r = Some g) df)
      in if n = 0 then None else Some n)"

definition sql_divide :: "nat option \<Rightarrow> nat option \<Rightarrow> rat option" where
  "sql_divide a b =
     (case (a, b) of
        (Some m, Some f) \<Rightarrow> if f = 0 then None else Some (of_nat m / of_nat f)
      | _ \<Rightarrow> None)"

definition round_half_up :: "rat \<Rightarrow> nat \<Rightarrow> rat" where
  "round_half_up q d =
     (if 0 \<le> q then of_int \<lfloor>q * 10 ^ d + 1 / 2\<rfloor> / 10 ^ d
      else of_int \<lceil>q * 10 ^ d - 1 / 2\<rceil> / 10 ^ d)"

text \<open>The rows of the select, given the pivot columns that \<^verbatim>\<open>M\<close> and \<^verbatim>\<open>F\<close> resolve to.\<close>

definition gender_ratio_rows :: "'v patient list \<Rightarrow> string \<Rightarrow> string \<Rightarrow> 'w document list" where
  "gender_ratio_rows df m f =
     map (\<lambda>c. GenderRatio c
                (map_option (\<lambda>q. round_half_up q 2)
                   (sql_divide (pivot_count df c m) (pivot_count df c f))))
         (remdups (map diagnosis_code df))"

definition disease_gender_ratio :: "'v patient list \<Rightarrow> 'v world \<Rightarrow> error + 'v world" where
  "disease_gender_ratio df w =
     (let cols = ''diagnosis_code'' # pivot_columns df
      in case resolve cols ''diagnosis_code'' of
           Inl e \<Rightarrow> Inl e
         | Inr c \<Rightarrow>
             (case resolve cols ''M'' of
                Inl e \<Rightarrow> Inl e
              | Inr m \<Rightarrow>
                  (case resolve cols ''F'' of
                     Inl e \<Rightarrow> Inl e
                   | Inr f \<Rightarrow>
                       Inr (w\<lparr>store := mongo_append ''disease_gender_ratio_data''
                                          (gender_ratio_rows df m f) (store w)\<rparr>))))"

text \<open>Lines 150-157.\<close>

definition most_common_diseases_rows :: "'v patient list \<Rightarrow> 'w document list" where
  "most_common_diseases_rows df =
     map (\<lambda>(disease, n). DiseaseCount disease n)
         (sort_desc snd (group_count (map diagnosis_description df)))"

definition most_common_diseases :: "'v patient list \<Rightarrow> 'v world \<Rightarrow> 'v world" where
  "most_common_diseases df w =
     w\<lparr>store := mongo_append ''most_common_diseases_data''
                   (most_common_diseases_rows df) (store w)\<rparr>"

text \<open>
  Lines 181-195. A comparison with a null age is null, so no \<^verbatim>\<open>when\<close> holds and the
  row falls to \<^verbatim>\<open>otherwise\<close>. \<^verbatim>\<open>orderBy('age_group', desc('count'))\<close> is a stable sort
  on the second key followed by one on the first. The order among the rows that tie on
  both keys is the engine's choice; the model takes the stable one, and what is stated of
  the rows written is stated of them as a multiset.
\<close>

definition age_group :: "int option \<Rightarrow> string" where
  "age_group a =
     (case a of
        None \<Rightarrow> ''minors''
      | Some x \<Rightarrow>
          if x \<ge> 30 \<and> x \<le> 40 then ''30-40''
          else if x \<ge> 41 \<and> x \<le> 50 then ''41-50''
          else if x \<ge> 51 \<and> x \<le> 60 then ''51-60''
          else if x \<ge> 61 \<and> x \<le> 70 then ''61-70''
          else if x \<ge> 71 then ''70+''
          else ''minors'')"

definition age_category_rows :: "'v patient list \<Rightarrow> 'w document list" where
  "age_category_rows df =
     map (\<lambda>((g, descr, code), n). AgeCategory g descr code n)
         (sort_key (\<lambda>((g, descr, code), n). g)
            (sort_desc snd
               (group_count
                  (map (\<lambda>r. (age_group (age r), diagnosis_description r, diagnosis_code r)) df))))"

definition age_category :: "'v patient list \<Rightarrow> 'v world \<Rightarrow> 'v world" where
  "age_category df w =
     w\<lparr>store := mongo_append ''age_category_data'' (age_category_rows df) (store w)\<rparr>"

text \<open>Lines 218-228. Nulls sort last in a descending sort, as \<open>None\<close> does here.\<close>

definition senior_flag :: "int option \<Rightarrow> string" where
  "senior_flag a = (case a of None \<Rightarrow> ''N'' | Some x \<Rightarrow> if x \<ge> 60 then ''Y'' else ''N'')"

definition senior_citizen_flag_rows :: "'v patient list \<Rightarrow> 'w document list" where
  "senior_citizen_flag_rows df =
     map (\<lambda>r. SeniorCitizen (patient_id r) (age r) (gender r) (diagnosis_description r)
                 (senior_flag (age r)))
         (sort_desc age df)"

definition senior_citizen_flag :: "'v patient list \<Rightarrow> 'v world \<Rightarrow> 'v world" where
  "senior_citizen_flag df w =
     w\<lparr>store := mongo_append ''senior_citizen_flag_data''
                   (senior_citizen_flag_rows df) (store w)\<rparr>"

text \<open>
  Lines 251-269. The function takes the session, not a dataframe: it loads what matches
  \<^verbatim>\<open>file_path + "*csv"\<close>, with \<^verbatim>\<open>file_path\<close> taken literally and the star matching
  no \<^verbatim>\<open>/\<close>. A matching file is loaded unless its name is one the engine hides (a name
  starting with \<^verbatim>\<open>_\<close> or \<^verbatim>\<open>.\<close>, with the engine's exceptions); of a matching
  directory the files below it are loaded, but for hidden names on the way. The load fails
  when no file is left; the loaded table has the header of the first file and the rows of
  all of them. \<^verbatim>\<open>orderBy(desc('count'), 'dayofweek')\<close> is again two stable sorts.
\<close>

fun split_on :: "char \<Rightarrow> string \<Rightarrow> string \<Rightarrow> string list" where
  "split_on c acc [] = [rev acc]"
| "split_on c acc (x # xs) =
     (if x = c then rev acc # split_on c [] xs else split_on c (x # acc) xs)"

definition ends_with :: "string \<Rightarrow> string \<Rightarrow> bool" where
  "ends_with s ending =
     (length ending \<le> length s \<and> drop (length s - length ending) s = ending)"

definition hidden_name :: "string \<Rightarrow> bool" where
  "hidden_name n =
     (((take 1 n = ''_'' \<and> CHR ''='' \<notin> set n) \<or> take 1 n = ''.'' \<or> ends_with n ''._COPYING_'') \<and>
      \<not> (take 16 n = ''_common_metadata'' \<or> take 9 n = ''_metadata''))"

definition glob_match :: "string \<Rightarrow> string \<Rightarrow> bool" where
  "glob_match dir p =
     (take (length dir) p = dir \<and>
      (case split_on CHR ''/'' [] (drop (length dir) p) of
         [] \<Rightarrow> False
       | name # below \<Rightarrow>
           ends_with name ''csv'' \<and>
           (if below = [] then \<not> hidden_name (last (split_on CHR ''/'' [] dir) @ name)
            else list_all (\<lambda>n. n \<noteq> [] \<and> \<not> hidden_name n) below)))"

definition load_glob :: "'v world \<Rightarrow> error + 'v dataframe" where
  "load_glob w =
     (case filter (\<lambda>(p, df). glob_match (file_path w) p) (files w) of
        [] \<Rightarrow> Inl (AnalysisException ''Path does not exist'')
      | (p, df) # others \<Rightarrow>
          Inr \<lparr> columns = columns df, rows = rows df @ concat (map (\<lambda>(p, d). rows d) others) \<rparr>)"

definition disease_trend_rows :: "'v engine \<Rightarrow> 'v dataframe \<Rightarrow> 'v document list" where
  "disease_trend_rows eng df =
     map (\<lambda>((descr, dow), n). DiseaseTrend descr dow n)
         (sort_desc snd
            (sort_key (\<lambda>((descr, dow), n). dow)
               (group_count
                  (map (\<lambda>r. (cell (columns df) r ''diagnosis_description'',
                              Option.bind (cell (columns df) r ''diagnosis_date'') (dayofweek eng)))
                       (rows df)))))"

definition disease_trend_over_the_week :: "'v engine \<Rightarrow> 'v world \<Rightarrow> error + 'v world" where
  "disease_trend_over_the_week eng w =
     (case load_glob w of
        Inl e \<Rightarrow> Inl e
      | Inr df \<Rightarrow>
          if ''diagnosis_date'' \<notin> set (columns df) then Inl (AnalysisException ''diagnosis_date'')
          else if ''diagnosis_description'' \<notin> set (columns df)
          then Inl (AnalysisException ''diagnosis_description'')
          else Inr (w\<lparr>store := mongo_append ''disease_trend_over_the_week_data''
                                  (disease_trend_rows eng df) (store w)\<rparr>))"

section \<open>The date cursor and the run\<close>

text \<open>
  The three calls of the \<^verbatim>\<open>datetime\<close> library on lines 296-297, which are not code of
  this repository: \<^verbatim>\<open>strptime(s, '%Y%m%d')\<close>, \<^verbatim>\<open>+ timedelta(days=1)\<close> and
  \<^verbatim>\<open>strftime(d, '%Y%m%d')\<close>. The first two can raise.
\<close>

record 't datetime_lib =
  strptime :: "string \<Rightarrow> error + 't"
  plus_one_day :: "'t \<Rightarrow> error + 't"
  strftime :: "'t \<Rightarrow> string"

text \<open>Lines 293-300: the new date is set and the configuration file rewritten.\<close>

definition save_processing_date_info :: "'t datetime_lib \<Rightarrow> 'v world \<Rightarrow> error + 'v world" where
  "save_processing_date_info lib w =
     (case strptime lib (file_date w) of
        Inl e \<Rightarrow> Inl e
      | Inr t \<Rightarrow>
          (case plus_one_day lib t of
             Inl e \<Rightarrow> Inl e
           | Inr date_obj \<Rightarrow> Inr (w\<lparr>file_date := strftime lib date_obj\<rparr>)))"

text \<open>
  Lines 303-323: the steps in order inside \<^verbatim>\<open>try\<close>. The handler prints the exception
  and the process ends, so a run returns the state it reached and the exception it caught,
  if any. What was written before the exception stays written.
\<close>

definition main ::
  "('v::linorder) engine \<Rightarrow> 't datetime_lib \<Rightarrow> 'v world \<Rightarrow> 'v world \<times> error option" where
  "main eng lib w =
     (case read_and_save_raw_data w of
        Inl e \<Rightarrow> (w, Some e)
      | Inr (raw_data_df, w1) \<Rightarrow>
     (case data_quality_check eng raw_data_df of
        Inl e \<Rightarrow> (w1, Some e)
      | Inr (quality_data_df, report) \<Rightarrow>
     (let w2 = save_cleaning_report report w1 in
      case disease_gender_ratio quality_data_df w2 of
        Inl e \<Rightarrow> (w2, Some e)
      | Inr w3 \<Rightarrow>
     (let w4 = most_common_diseases quality_data_df w3;
          w5 = age_category quality_data_df w4;
          w6 = senior_citizen_flag quality_data_df w5 in
      case disease_trend_over_the_week eng w6 of
        Inl e \<Rightarrow> (w6, Some e)
      | Inr w7 \<Rightarrow>
     (case save_processing_date_info lib w7 of
        Inl e \<Rightarrow> (w7, Some e)
      | Inr w8 \<Rightarrow> (w8, None))))))"

text \<open>The seven destinations of the writes.\<close>

definition destinations :: "string list" where
  "destinations = [collection_name, ''cleaning_report'', ''disease_gender_ratio_data'',
     ''most_common_diseases_data'', ''age_category_data'', ''senior_citizen_flag_data'',
     ''disease_trend_over_the_week_data'']"

section \<open>A concrete engine, calendar and extract\<close>

text \<open>
  An engine for files whose columns are all read as text: a cell is the string of the
  file; the cast to \<^verbatim>\<open>int\<close> trims the characters up to the space, reads an optional
  sign, the digits and an optional fraction that it drops, and is null on anything else
  and outside 32 bits; a string literal is a value of a text column as it is; and
  \<^verbatim>\<open>dayofweek\<close> reads an ISO date (1 is Sunday, 7 is Saturday). The second engine differs in that the
  \<^verbatim>\<open>diagnosis_date\<close> column is typed as a date, so only a literal that is a valid date
  casts to it.
\<close>

definition digit_of :: "char \<Rightarrow> nat option" where
  "digit_of c =
     (let n = (of_char c :: nat) in if 48 \<le> n \<and> n \<le> 57 then Some (n - 48) else None)"

fun nat_of_digits :: "nat \<Rightarrow> string \<Rightarrow> nat option" where
  "nat_of_digits acc [] = Some acc"
| "nat_of_digits acc (c # cs) =
     (case digit_of c of None \<Rightarrow> None | Some d \<Rightarrow> nat_of_digits (10 * acc + d) cs)"

definition nat_of_text :: "string \<Rightarrow> nat option" where
  "nat_of_text s = (if s = [] then None else nat_of_digits 0 s)"

definition trim_all :: "string \<Rightarrow> string" where
  "trim_all s =
     rev (dropWhile (\<lambda>c. (of_char c :: nat) \<le> 32) (rev (dropWhile (\<lambda>c. (of_char c :: nat) \<le> 32) s)))"

fun int_of_digits :: "int \<Rightarrow> string \<Rightarrow> int option" where
  "int_of_digits acc [] = Some acc"
| "int_of_digits acc (c # cs) =
     (case digit_of c of None \<Rightarrow> None | Some d \<Rightarrow> int_of_digits (10 * acc + int d) cs)"

definition int_of_text :: "string \<Rightarrow> int option" where
  "int_of_text s =
     (case trim_all s of
        [] \<Rightarrow> None
      | c # cs \<Rightarrow>
          let negative = (c = CHR ''-'');
              signed = (negative \<or> c = CHR ''+'');
              body = (if signed then cs else c # cs);
              whole = takeWhile (\<lambda>x. x \<noteq> CHR ''.'') body;
              fraction = drop (length whole + 1) body
          in if signed \<and> cs = [] then None
             else (case (int_of_digits 0 whole, int_of_digits 0 fraction) of
                     (Some n, Some k) \<Rightarrow>
                       let v = (if negative then - n else n)
                       in if - 2147483648 \<le> v \<and> v \<le> 2147483647 then Some v else None
                   | _ \<Rightarrow> None))"

definition is_leap :: "nat \<Rightarrow> bool" where
  "is_leap y = (y mod 4 = 0 \<and> (y mod 100 \<noteq> 0 \<or> y mod 400 = 0))"

definition days_in_month :: "nat \<Rightarrow> nat \<Rightarrow> nat" where
  "days_in_month y m =
     (if m = 2 then (if is_leap y then 29 else 28)
      else if m = 4 \<or> m = 6 \<or> m = 9 \<or> m = 11 then 30 else 31)"

definition valid_date :: "nat \<times> nat \<times> nat \<Rightarrow> bool" where
  "valid_date t =
     (case t of (y, m, d) \<Rightarrow>
        1 \<le> y \<and> y \<le> 9999 \<and> 1 \<le> m \<and> m \<le> 12 \<and> 1 \<le> d \<and> d \<le> days_in_month y m)"

text \<open>The day number of a date, 1 for 1 January of year 1 (a Monday).\<close>

definition ordinal :: "nat \<times> nat \<times> nat \<Rightarrow> int" where
  "ordinal t =
     (case t of (y, m, d) \<Rightarrow>
        365 * (int y - 1) + (int y - 1) div 4 - (int y - 1) div 100 + (int y - 1) div 400
        + int (sum_list (map (days_in_month y) [1..<m])) + int d)"

definition iso_date :: "string \<Rightarrow> (nat \<times> nat \<times> nat) option" where
  "iso_date s =
     (if length s = 10 \<and> s ! 4 = CHR ''-'' \<and> s ! 7 = CHR ''-'' then
        (case (nat_of_text (take 4 s), nat_of_text (take 2 (drop 5 s)), nat_of_text (drop 8 s)) of
           (Some y, Some m, Some d) \<Rightarrow> if valid_date (y, m, d) then Some (y, m, d) else None
         | _ \<Rightarrow> None)
      else None)"

definition text_engine :: "string engine" where
  "text_engine =
     \<lparr> cast_string = (\<lambda>s. s),
       cast_int = int_of_text,
       cast_literal = Some,
       dayofweek = (\<lambda>s. map_option (\<lambda>t. ordinal t mod 7 + 1) (iso_date s)) \<rparr>"

definition dated_engine :: "string engine" where
  "dated_engine =
     text_engine\<lparr>cast_literal := (\<lambda>s. if iso_date s = None then None else Some s)\<rparr>"

text \<open>
  The calendar. \<^verbatim>\<open>strptime\<close> with \<^verbatim>\<open>%Y%m%d\<close> matches four digits, then the first
  alternative that fits of a month (\<^verbatim>\<open>1[0-2]\<close>, \<^verbatim>\<open>0[1-9]\<close>, \<^verbatim>\<open>[1-9]\<close>) and of a day
  (\<^verbatim>\<open>3[01]\<close>, \<^verbatim>\<open>[12]\d\<close>, \<^verbatim>\<open>0[1-9]\<close>, \<^verbatim>\<open>[1-9]\<close>, a space and \<^verbatim>\<open>[1-9]\<close>), going
  back to a later alternative of the month when no day follows; it raises when nothing
  matches, when text remains after the match, and when the date does not exist. Adding a
  day raises past year 9999. \<^verbatim>\<open>strftime\<close> pads month and day to two digits and
  writes the year as it is.
\<close>

fun pad_nat :: "nat \<Rightarrow> nat \<Rightarrow> string" where
  "pad_nat 0 n = []"
| "pad_nat (Suc k) n = pad_nat k (n div 10) @ [char_of (48 + n mod 10)]"

definition match_month :: "string \<Rightarrow> (nat \<times> string) list" where
  "match_month s =
     (case s of
        a # b # r \<Rightarrow>
          (case (digit_of a, digit_of b) of
             (Some x, Some y) \<Rightarrow>
               (if x = 1 \<and> y \<le> 2 then [(10 + y, r)] else []) @
               (if x = 0 \<and> 1 \<le> y then [(y, r)] else [])
           | _ \<Rightarrow> [])
      | _ \<Rightarrow> []) @
     (case s of
        a # r \<Rightarrow> (case digit_of a of Some x \<Rightarrow> if 1 \<le> x then [(x, r)] else [] | None \<Rightarrow> [])
      | [] \<Rightarrow> [])"

definition match_day :: "string \<Rightarrow> (nat \<times> string) list" where
  "match_day s =
     (case s of
        a # b # r \<Rightarrow>
          (case (digit_of a, digit_of b) of
             (Some x, Some y) \<Rightarrow>
               (if x = 3 \<and> y \<le> 1 then [(30 + y, r)] else []) @
               (if x = 1 \<or> x = 2 then [(10 * x + y, r)] else []) @
               (if x = 0 \<and> 1 \<le> y then [(y, r)] else [])
           | _ \<Rightarrow> [])
      | _ \<Rightarrow> []) @
     (case s of
        a # r \<Rightarrow> (case digit_of a of Some x \<Rightarrow> if 1 \<le> x then [(x, r)] else [] | None \<Rightarrow> [])
      | [] \<Rightarrow> []) @
     (case s of
        a # b # r \<Rightarrow>
          (case digit_of b of
             Some y \<Rightarrow> if a = CHR '' '' \<and> 1 \<le> y then [(y, r)] else []
           | None \<Rightarrow> [])
      | _ \<Rightarrow> [])"

definition ymd_strptime :: "string \<Rightarrow> error + (nat \<times> nat \<times> nat)" where
  "ymd_strptime s =
     (case nat_of_text (take 4 s) of
        None \<Rightarrow> Inl (ValueError s)
      | Some y \<Rightarrow>
          if length s < 4 then Inl (ValueError s)
          else (case concat (map (\<lambda>(m, r). map (\<lambda>(d, r'). (m, d, r')) (match_day r))
                               (match_month (drop 4 s))) of
                  [] \<Rightarrow> Inl (ValueError s)
                | (m, d, r') # others \<Rightarrow>
                    if r' \<noteq> [] then Inl (ValueError s)
                    else if valid_date (y, m, d) then Inr (y, m, d)
                    else Inl (ValueError s)))"

definition ymd_plus_one_day :: "nat \<times> nat \<times> nat \<Rightarrow> error + (nat \<times> nat \<times> nat)" where
  "ymd_plus_one_day t =
     (case t of (y, m, d) \<Rightarrow>
        if d < days_in_month y m then Inr (y, m, d + 1)
        else if m < 12 then Inr (y, m + 1, 1)
        else if y < 9999 then Inr (y + 1, 1, 1)
        else Inl OverflowError)"

definition show_year :: "nat \<Rightarrow> string" where
  "show_year y =
     (if y < 10 then pad_nat 1 y else if y < 100 then pad_nat 2 y
      else if y < 1000 then pad_nat 3 y else pad_nat 4 y)"

definition ymd_strftime :: "nat \<times> nat \<times> nat \<Rightarrow> string" where
  "ymd_strftime t = (case t of (y, m, d) \<Rightarrow> show_year y @ pad_nat 2 m @ pad_nat 2 d)"

definition ymd_lib :: "(nat \<times> nat \<times> nat) datetime_lib" where
  "ymd_lib = \<lparr> strptime = ymd_strptime, plus_one_day = ymd_plus_one_day,
               strftime = ymd_strftime \<rparr>"

text \<open>
  An extract of four rows: the third has no age and no date, the fourth no patient id.
\<close>

definition extract_0801 :: "string dataframe" where
  "extract_0801 =
     \<lparr> columns = [''patient_id'', ''age'', ''gender'', ''diagnosis_code'',
                   ''diagnosis_description'', ''diagnosis_date''],
       rows =
         [[Some ''P1'', Some ''30'', Some ''M'', Some ''D123'', Some ''Diabetes'',
           Some ''2023-08-01''],
          [Some ''P2'', Some ''41'', Some ''F'', Some ''D123'', Some ''Diabetes'',
           Some ''2023-08-02''],
          [Some ''P3'', None, Some ''F'', Some ''H234'', Some ''Hypertension'', None],
          [None, Some ''65'', Some ''M'', Some ''H234'', Some ''Hypertension'',
           Some ''2023-08-01'']] \<rparr>"

text \<open>
  The table and the report that \<open>data_quality_check\<close> returns for it under
  \<open>text_engine\<close>.
\<close>

definition cleaned_0801 :: "string patient list" where
  "cleaned_0801 =
     [\<lparr> patient_id = Some ''P1'', age = Some 30, gender = Some ''M'',
        diagnosis_code = Some ''D123'', diagnosis_description = Some ''Diabetes'',
        diagnosis_date = Some ''2023-08-01'' \<rparr>,
      \<lparr> patient_id = Some ''P2'', age = Some 41, gender = Some ''F'',
        diagnosis_code = Some ''D123'', diagnosis_description = Some ''Diabetes'',
        diagnosis_date = Some ''2023-08-02'' \<rparr>,
      \<lparr> patient_id = Some ''P3'', age = Some 35, gender = Some ''F'',
        diagnosis_code = Some ''H234'', diagnosis_description = Some ''Hypertension'',
        diagnosis_date = Some ''P2'' \<rparr>]"

definition report_0801 :: cleaning_report where
  "report_0801 =
     \<lparr> missing_columns = [], duplicate_records = 0,
       columns_with_null_count =
         [(''patient_id'', 1), (''age'', 1), (''gender'', 0), (''diagnosis_code'', 0),
          (''diagnosis_description'', 0), (''diagnosis_date'', 1)] \<rparr>"

text \<open>
  Three more extracts: the same patient three times; one row with an age and no date; one
  row in a file that has no \<^verbatim>\<open>age\<close> column.
\<close>

definition extract_triple :: "string dataframe" where
  "extract_triple =
     \<lparr> columns = [''patient_id'', ''age'', ''gender'', ''diagnosis_code'',
                   ''diagnosis_description'', ''diagnosis_date''],
       rows = replicate 3 [Some ''P1'', Some ''30'', Some ''M'', Some ''D123'',
                           Some ''Diabetes'', Some ''2023-08-01''] \<rparr>"

definition extract_undated :: "string dataframe" where
  "extract_undated =
     \<lparr> columns = [''patient_id'', ''age'', ''gender'', ''diagnosis_code'',
                   ''diagnosis_description'', ''diagnosis_date''],
       rows = [[Some ''P1'', Some ''30'', Some ''M'', Some ''D123'', Some ''Diabetes'', None]] \<rparr>"

definition extract_no_age :: "string dataframe" where
  "extract_no_age =
     \<lparr> columns = [''patient_id'', ''gender'', ''diagnosis_code'',
                   ''diagnosis_description'', ''diagnosis_date''],
       rows = [[Some ''P1'', Some ''M'', Some ''D123'', Some ''Diabetes'',
                Some ''2023-08-01'']] \<rparr>"

text \<open>
  Three states: one with the file of 1 August and the cursor on it; one with the cursor on
  a day that has no file; one with the cursor on 1 August and the file of the day before
  as well.
\<close>

definition extract_0731 :: "string dataframe" where
  "extract_0731 =
     \<lparr> columns = [''patient_id'', ''age'', ''gender'', ''diagnosis_code'',
                   ''diagnosis_description'', ''diagnosis_date''],
       rows = [[Some ''P9'', Some ''52'', Some ''M'', Some ''C345'', Some ''Cancer'',
                Some ''2023-07-31'']] \<rparr>"

definition world_0801 :: "string world" where
  "world_0801 =
     \<lparr> files = [(''/data/health_data_20230801.csv'', extract_0801)],
       file_path = ''/data/'', file_date = ''20230801'', store = (\<lambda>c. []) \<rparr>"

definition world_0803 :: "string world" where
  "world_0803 = world_0801\<lparr>file_date := ''20230803''\<rparr>"

definition world_two_files :: "string world" where
  "world_two_files =
     world_0801\<lparr>files := [(''/data/health_data_20230731.csv'', extract_0731),
                           (''/data/health_data_20230801.csv'', extract_0801)]\<rparr>"

text \<open>
  A file whose rows carry an \<^verbatim>\<open>_id\<close>, and a table whose genders are written in lower
  case.
\<close>

definition extract_ids :: "string dataframe" where
  "extract_ids =
     \<lparr> columns = [''_id'', ''patient_id'', ''age'', ''gender'', ''diagnosis_code'',
                   ''diagnosis_description'', ''diagnosis_date''],
       rows =
         [[Some ''1'', Some ''P1'', Some ''30'', Some ''M'', Some ''D123'', Some ''Diabetes'',
           Some ''2023-08-01''],
          [Some ''2'', Some ''P2'', Some ''41'', Some ''F'', Some ''D123'', Some ''Diabetes'',
           Some ''2023-08-02'']] \<rparr>"

definition world_ids :: "string world" where
  "world_ids = world_0801\<lparr>files := [(''/data/health_data_20230801.csv'', extract_ids)]\<rparr>"

definition cleaned_lower :: "string patient list" where
  "cleaned_lower =
     [\<lparr> patient_id = Some ''P1'', age = Some 30, gender = Some ''m'',
        diagnosis_code = Some ''D123'', diagnosis_description = Some ''Diabetes'',
        diagnosis_date = Some ''2023-08-01'' \<rparr>,
      \<lparr> patient_id = Some ''P2'', age = Some 41, gender = Some ''f'',
        diagnosis_code = Some ''D123'', diagnosis_description = Some ''Diabetes'',
        diagnosis_date = Some ''2023-08-02'' \<rparr>]"

text \<open>What a run on \<open>world_0801\<close> writes, by collection.\<close>

definition written_0801 :: "string \<Rightarrow> string document list" where
  "written_0801 c =
     (if c = ''healthcare_raw_data'' then
        [RawRow [(''patient_id'', Some ''P1''), (''age'', Some ''30''), (''gender'', Some ''M''),
                 (''diagnosis_code'', Some ''D123''), (''diagnosis_description'', Some ''Diabetes''),
                 (''diagnosis_date'', Some ''2023-08-01'')],
         RawRow [(''patient_id'', Some ''P2''), (''age'', Some ''41''), (''gender'', Some ''F''),
                 (''diagnosis_code'', Some ''D123''), (''diagnosis_description'', Some ''Diabetes''),
                 (''diagnosis_date'', Some ''2023-08-02'')],
         RawRow [(''patient_id'', Some ''P3''), (''age'', None), (''gender'', Some ''F''),
                 (''diagnosis_code'', Some ''H234''),
                 (''diagnosis_description'', Some ''Hypertension''), (''diagnosis_date'', None)],
         RawRow [(''patient_id'', None), (''age'', Some ''65''), (''gender'', Some ''M''),
                 (''diagnosis_code'', Some ''H234''),
                 (''diagnosis_description'', Some ''Hypertension''),
                 (''diagnosis_date'', Some ''2023-08-01'')]]
      else if c = ''cleaning_report'' then [CleaningReport report_0801]
      else if c = ''disease_gender_ratio_data'' then
        [GenderRatio (Some ''D123'') (Some 1), GenderRatio (Some ''H234'') None]
      else if c = ''most_common_diseases_data'' then
        [DiseaseCount (Some ''Diabetes'') 2, DiseaseCount (Some ''Hypertension'') 1]
      else if c = ''age_category_data'' then
        [AgeCategory ''30-40'' (Some ''Diabetes'') (Some ''D123'') 1,
         AgeCategory ''30-40'' (Some ''Hypertension'') (Some ''H234'') 1,
         AgeCategory ''41-50'' (Some ''Diabetes'') (Some ''D123'') 1]
      else if c = ''senior_citizen_flag_data'' then
        [SeniorCitizen (Some ''P2'') (Some 41) (Some ''F'') (Some ''Diabetes'') ''N'',
         SeniorCitizen (Some ''P3'') (Some 35) (Some ''F'') (Some ''Hypertension'') ''N'',
         SeniorCitizen (Some ''P1'') (Some 30) (Some ''M'') (Some ''Diabetes'') ''N'']
      else if c = ''disease_trend_over_the_week_data'' then
        [DiseaseTrend (Some ''Hypertension'') None 1, DiseaseTrend (Some ''Diabetes'') (Some 3) 1,
         DiseaseTrend (Some ''Hypertension'') (Some 3) 1,
         DiseaseTrend (Some ''Diabetes'') (Some 4) 1]
      else [])"

section \<open>Properties of data\_quality\_check\<close>

lemma check_mandatory_Inr_iff:
  "check_mandatory cols ms acc = Inr x \<longleftrightarrow> set ms \<subseteq> set cols \<and> x = acc"
  by (induction ms) auto

lemma check_mandatory_cases:
  "(set ms \<subseteq> set cols \<and> check_mandatory cols ms acc = Inr acc) \<or>
   (\<exists>c \<in> set ms. c \<notin> set cols \<and> check_mandatory cols ms acc = Inl (ValueError c))"
  by (induction ms) auto

text \<open>What a normal return of \<open>data_quality_check\<close> says about its steps.\<close>

lemma data_quality_check_success:
  assumes "data_quality_check eng df = Inr (out, rep)"
  shows "\<exists>q latest s.
     set mandatory_fields \<subseteq> set (columns df) \<and>
     median (non_null_ages (drop_null_patient_id (cast_columns eng df))) = Some q \<and>
     latest_row (map (\<lambda>r. r\<lparr>age := coalesce (age r) (Some (double_to_int q))\<rparr>)
                   (drop_null_patient_id (cast_columns eng df))) = Some latest \<and>
     patient_id latest = Some s \<and>
     out = map (\<lambda>r. r\<lparr>diagnosis_date := coalesce (diagnosis_date r) (cast_literal eng s)\<rparr>)
             (map (\<lambda>r. r\<lparr>age := coalesce (age r) (Some (double_to_int q))\<rparr>)
                (drop_null_patient_id (cast_columns eng df))) \<and>
     rep = \<lparr> missing_columns = [],
             duplicate_records = count_duplicates (cast_columns eng df),
             columns_with_null_count = null_count (cast_columns eng df) \<rparr>"
  using assms
  unfolding data_quality_check_def Let_def fillna_age_def fillna_diagnosis_date_def
  by (auto split: sum.splits option.splits simp: check_mandatory_Inr_iff)

lemma data_quality_check_not_ValueError:
  assumes "set mandatory_fields \<subseteq> set (columns df)"
  shows "data_quality_check eng df \<noteq> Inl (ValueError c)"
  using assms check_mandatory_cases[of mandatory_fields "columns df" "[]"]
  unfolding data_quality_check_def Let_def fillna_age_def fillna_diagnosis_date_def
  by (auto split: sum.splits option.splits)

lemma data_quality_check_ValueError:
  assumes "\<not> set mandatory_fields \<subseteq> set (columns df)"
  shows "\<exists>c \<in> set mandatory_fields.
           c \<notin> set (columns df) \<and> data_quality_check eng df = Inl (ValueError c)"
  using assms check_mandatory_cases[of mandatory_fields "columns df" "[]"]
  unfolding data_quality_check_def
  by auto

lemma dqc_extract_0801:
  "data_quality_check text_engine extract_0801 = Inr (cleaned_0801, report_0801)"
  by code_simp

lemma patient_id_cast_row:
  "patient_id (cast_row eng cols r) = map_option (cast_string eng) (cell cols r ''patient_id'')"
  by (simp add: cast_row_def)

lemma drop_null_patient_id_cast:
  "drop_null_patient_id (cast_columns eng df) =
     map (cast_row eng (columns df))
       (filter (\<lambda>r. cell (columns df) r ''patient_id'' \<noteq> None) (rows df))"
  by (simp add: drop_null_patient_id_def cast_columns_def filter_map comp_def patient_id_cast_row)

text \<open>
  C10. Whenever \<open>data_quality_check\<close> returns normally, the \<^verbatim>\<open>missing_columns\<close> field of
  the report is the empty list: a missing mandatory column raises before the report is
  built.
\<close>

theorem missing_columns_empty:
  assumes "data_quality_check eng df = Inr (out, rep)"
  shows "missing_columns rep = []"
  using data_quality_check_success[OF assms] by auto

theorem missing_columns_empty_witness:
  "data_quality_check text_engine extract_0801 = Inr (cleaned_0801, report_0801) \<and>
   missing_columns report_0801 = []"
  using missing_columns_empty[OF dqc_extract_0801] dqc_extract_0801 by simp

text \<open>
  C3, as stated: \<open>data_quality_check\<close> raises if and only if a required column is
  absent. It fails on an extract that has all six columns and no row with a date:
  \<^verbatim>\<open>first()\<close> returns \<^verbatim>\<open>None\<close> on line 90 and the subscript raises \<^verbatim>\<open>TypeError\<close>.
\<close>

theorem raises_with_all_columns_present:
  "data_quality_check text_engine extract_undated = Inl TypeError \<and>
   set mandatory_fields \<subseteq> set (columns extract_undated)"
  by code_simp

text \<open>
  C3, amended: \<open>data_quality_check\<close> raises the \<^verbatim>\<open>ValueError\<close> of the column check if
  and only if at least one of the six required columns is absent from the input's
  columns; when all six are present the column check passes and no such error is raised.
\<close>

theorem schema_error_iff_column_absent:
  "(\<exists>c. data_quality_check eng df = Inl (ValueError c)) \<longleftrightarrow>
     \<not> set mandatory_fields \<subseteq> set (columns df)"
  using data_quality_check_ValueError[of df eng] data_quality_check_not_ValueError[of df eng]
  by blast

theorem schema_error_iff_column_absent_witness:
  "(\<exists>c. data_quality_check text_engine extract_no_age = Inl (ValueError c)) \<and>
   \<not> set mandatory_fields \<subseteq> set (columns extract_no_age) \<and>
   \<not> (\<exists>c. data_quality_check text_engine extract_0801 = Inl (ValueError c)) \<and>
   set mandatory_fields \<subseteq> set (columns extract_0801)"
proof -
  have a: "\<not> set mandatory_fields \<subseteq> set (columns extract_no_age)"
    by (simp add: mandatory_fields_def extract_no_age_def)
  have b: "set mandatory_fields \<subseteq> set (columns extract_0801)"
    by (simp add: mandatory_fields_def extract_0801_def)
  show ?thesis
    using a b schema_error_iff_column_absent[of text_engine extract_no_age]
      schema_error_iff_column_absent[of text_engine extract_0801]
    by simp
qed

lemma count_duplicates_card: "count_duplicates xs = card {k. count_list xs k > 2}"
proof -
  have "count_duplicates xs = length (filter (\<lambda>k. count_list xs k > 2) (remdups xs))"
    by (simp add: count_duplicates_def group_count_def filter_map comp_def)
  also have "\<dots> = card (set (filter (\<lambda>k. count_list xs k > 2) (remdups xs)))"
    by (rule distinct_card[symmetric]) simp
  also have "set (filter (\<lambda>k. count_list xs k > 2) (remdups xs)) = {k. count_list xs k > 2}"
    by (auto simp: count_list_0_iff intro: ccontr)
  finally show ?thesis .
qed

text \<open>
  C2, amended: when \<open>data_quality_check\<close> returns, the \<^verbatim>\<open>duplicate_records\<close> field of the
  report equals the number of distinct full tuples (groups over all six mandatory columns
  of the cast table) that occur more than twice; each such group counts once, however many
  rows it has.
\<close>

theorem duplicate_records_counts_groups:
  assumes "data_quality_check eng df = Inr (out, rep)"
  shows "duplicate_records rep = card {k. count_list (cast_columns eng df) k > 2}"
  using data_quality_check_success[OF assms] by (auto simp: count_duplicates_card)

theorem duplicate_records_counts_groups_witness:
  "data_quality_check text_engine extract_0801 = Inr (cleaned_0801, report_0801) \<and>
   card {k. count_list (cast_columns text_engine extract_0801) k > 2} = 0"
  using duplicate_records_counts_groups[OF dqc_extract_0801] dqc_extract_0801
  by (simp add: report_0801_def)

text \<open>
  C2, as stated: the field equals the number of rows whose full tuple occurs more than
  twice. For one patient row present three times that number is 3; the field is 1.
\<close>

theorem three_copies_counted_once:
  "duplicate_records (snd (projr (data_quality_check text_engine extract_triple))) = 1 \<and>
   length (filter (\<lambda>r. count_list (cast_columns text_engine extract_triple) r > 2)
             (cast_columns text_engine extract_triple)) = 3"
  by code_simp

text \<open>
  C9. The table returned by \<open>data_quality_check\<close> has no row with a null
  \<^verbatim>\<open>patient_id\<close>, and its rows are, in order, the input rows with a non-null
  \<^verbatim>\<open>patient_id\<close>: each carries the cast values of its input row, with only a null age
  or a null date replaced.
\<close>

theorem null_patient_id_dropped:
  assumes "data_quality_check eng df = Inr (out, rep)"
  shows "(\<forall>p \<in> set out. patient_id p \<noteq> None) \<and>
     list_all2
       (\<lambda>r p. patient_id p = map_option (cast_string eng) (cell (columns df) r ''patient_id'') \<and>
               gender p = map_option (cast_string eng) (cell (columns df) r ''gender'') \<and>
               diagnosis_code p =
                 map_option (cast_string eng) (cell (columns df) r ''diagnosis_code'') \<and>
               diagnosis_description p =
                 map_option (cast_string eng) (cell (columns df) r ''diagnosis_description'') \<and>
               (Option.bind (cell (columns df) r ''age'') (cast_int eng) \<noteq> None \<longrightarrow>
                  age p = Option.bind (cell (columns df) r ''age'') (cast_int eng)) \<and>
               (cell (columns df) r ''diagnosis_date'' \<noteq> None \<longrightarrow>
                  diagnosis_date p = cell (columns df) r ''diagnosis_date''))
       (filter (\<lambda>r. cell (columns df) r ''patient_id'' \<noteq> None) (rows df)) out"
proof -
  from data_quality_check_success[OF assms] obtain q s where
    out: "out = map (\<lambda>r. r\<lparr>diagnosis_date := coalesce (diagnosis_date r) (cast_literal eng s)\<rparr>)
             (map (\<lambda>r. r\<lparr>age := coalesce (age r) (Some (double_to_int q))\<rparr>)
                (drop_null_patient_id (cast_columns eng df)))"
    by blast
  have nonnull: "\<forall>p \<in> set out. patient_id p \<noteq> None"
    unfolding out by (auto simp: drop_null_patient_id_def)
  have rel: "list_all2
       (\<lambda>r p. patient_id p = map_option (cast_string eng) (cell (columns df) r ''patient_id'') \<and>
               gender p = map_option (cast_string eng) (cell (columns df) r ''gender'') \<and>
               diagnosis_code p =
                 map_option (cast_string eng) (cell (columns df) r ''diagnosis_code'') \<and>
               diagnosis_description p =
                 map_option (cast_string eng) (cell (columns df) r ''diagnosis_description'') \<and>
               (Option.bind (cell (columns df) r ''age'') (cast_int eng) \<noteq> None \<longrightarrow>
                  age p = Option.bind (cell (columns df) r ''age'') (cast_int eng)) \<and>
               (cell (columns df) r ''diagnosis_date'' \<noteq> None \<longrightarrow>
                  diagnosis_date p = cell (columns df) r ''diagnosis_date''))
       (filter (\<lambda>r. cell (columns df) r ''patient_id'' \<noteq> None) (rows df)) out"
    unfolding out drop_null_patient_id_cast
    by (auto simp: list_all2_map2 cast_row_def coalesce_def intro!: list_all2_same[THEN iffD2])
  show ?thesis using nonnull rel by blast
qed

theorem null_patient_id_dropped_witness:
  "data_quality_check text_engine extract_0801 = Inr (cleaned_0801, report_0801) \<and>
   list_all (\<lambda>p. patient_id p \<noteq> None) cleaned_0801 \<and>
   length (filter (\<lambda>r. cell (columns extract_0801) r ''patient_id'' \<noteq> None)
             (rows extract_0801)) = length cleaned_0801"
  using null_patient_id_dropped[OF dqc_extract_0801] dqc_extract_0801
  by (auto simp: list_all_iff dest: list_all2_lengthD)

text \<open>
  C4, amended: when \<open>data_quality_check\<close> returns, the rows that remain after the rows
  with a null \<^verbatim>\<open>patient_id\<close> are dropped have a median \<open>q\<close> of their non-null ages, and
  every null age is replaced by \<open>q\<close> cast to the integer type of the column, that is
  \<open>q\<close> with its fraction dropped; this is \<open>q\<close> itself whenever \<open>q\<close> is a whole number.
  Non-null ages are kept.
\<close>

theorem null_age_filled_with_truncated_median:
  assumes "data_quality_check eng df = Inr (out, rep)"
  shows "\<exists>q. median (non_null_ages (drop_null_patient_id (cast_columns eng df))) = Some q \<and>
     list_all2 (\<lambda>k p. age p = (case age k of None \<Rightarrow> Some (double_to_int q) | Some a \<Rightarrow> Some a))
       (drop_null_patient_id (cast_columns eng df)) out \<and>
     (q \<in> \<int> \<longrightarrow> of_int (double_to_int q) = q)"
proof -
  from data_quality_check_success[OF assms] obtain q s where
    med: "median (non_null_ages (drop_null_patient_id (cast_columns eng df))) = Some q" and
    out: "out = map (\<lambda>r. r\<lparr>diagnosis_date := coalesce (diagnosis_date r) (cast_literal eng s)\<rparr>)
             (map (\<lambda>r. r\<lparr>age := coalesce (age r) (Some (double_to_int q))\<rparr>)
                (drop_null_patient_id (cast_columns eng df)))"
    by blast
  have rel: "list_all2 (\<lambda>k p. age p = (case age k of None \<Rightarrow> Some (double_to_int q) | Some a \<Rightarrow> Some a))
       (drop_null_patient_id (cast_columns eng df)) out"
    unfolding out
    by (auto simp: list_all2_map2 coalesce_def split: option.splits intro!: list_all2_same[THEN iffD2])
  have int: "q \<in> \<int> \<longrightarrow> of_int (double_to_int q) = q"
    by (auto simp: double_to_int_def Ints_def)
  show ?thesis using med rel int by blast
qed

theorem null_age_filled_with_truncated_median_witness:
  "data_quality_check text_engine extract_0801 = Inr (cleaned_0801, report_0801) \<and>
   (\<exists>q. median (non_null_ages (drop_null_patient_id (cast_columns text_engine extract_0801)))
          = Some q)"
  using null_age_filled_with_truncated_median[OF dqc_extract_0801] dqc_extract_0801
  by blast

text \<open>
  C4, as stated: every null age becomes the median of the non-null ages. With ages 30 and
  41 the median is 35.5, and the null age of the third row becomes 35.
\<close>

theorem null_age_gets_35_not_median:
  "data_quality_check text_engine extract_0801 = Inr (cleaned_0801, report_0801) \<and>
   age (drop_null_patient_id (cast_columns text_engine extract_0801) ! 2) = None \<and>
   median (non_null_ages (drop_null_patient_id (cast_columns text_engine extract_0801)))
     = Some (71 / 2) \<and>
   age (cleaned_0801 ! 2) = Some 35"
  by code_simp

text \<open>
  C1 on the four-row extract. The third retained row has no date and the latest date
  present is 2023-08-02. Line 90 takes field 0 of the latest row, its \<^verbatim>\<open>patient_id\<close>
  \<^verbatim>\<open>P2\<close>, as the replacement: in a text column the null date becomes \<^verbatim>\<open>P2\<close>, in a
  date column the cast of \<^verbatim>\<open>P2\<close> is null and the date stays null.
\<close>

theorem latest_date_is_a_patient_id:
  "data_quality_check text_engine extract_0801 = Inr (cleaned_0801, report_0801) \<and>
   diagnosis_date (drop_null_patient_id (cast_columns text_engine extract_0801) ! 2) = None \<and>
   Max (set (map (\<lambda>r. the (diagnosis_date r))
               (filter (\<lambda>r. diagnosis_date r \<noteq> None)
                  (drop_null_patient_id (cast_columns text_engine extract_0801)))))
     = ''2023-08-02'' \<and>
   diagnosis_date (cleaned_0801 ! 2) = Some ''P2'' \<and>
   map diagnosis_date (fst (projr (data_quality_check dated_engine extract_0801)))
     = [Some ''2023-08-01'', Some ''2023-08-02'', None]"
  by code_simp

section \<open>The gender ratio\<close>

lemma resolve_cleaned_0801:
  "resolve (''diagnosis_code'' # pivot_columns cleaned_0801) ''diagnosis_code'' = Inr ''diagnosis_code''"
  "resolve (''diagnosis_code'' # pivot_columns cleaned_0801) ''M'' = Inr ''M''"
  "resolve (''diagnosis_code'' # pivot_columns cleaned_0801) ''F'' = Inr ''F''"
  by code_simp+

lemma gender_ratio_rows_cleaned_0801:
  "gender_ratio_rows cleaned_0801 ''M'' ''F'' =
     [GenderRatio (Some ''D123'') (Some 1), GenderRatio (Some ''H234'') None :: string document]"
  by code_simp

lemma gender_ratio_cleaned_0801:
  "disease_gender_ratio cleaned_0801 w =
     Inr (w\<lparr>store := mongo_append ''disease_gender_ratio_data''
            [GenderRatio (Some ''D123'') (Some 1), GenderRatio (Some ''H234'') None] (store w)\<rparr>)"
  by (simp add: disease_gender_ratio_def resolve_cleaned_0801 gender_ratio_rows_cleaned_0801)

text \<open>
  Genders written \<^verbatim>\<open>m\<close> and \<^verbatim>\<open>f\<close>: the references \<^verbatim>\<open>M\<close> and \<^verbatim>\<open>F\<close> resolve to
  these columns, and the ratio of the code is 1.
\<close>

lemma gender_ratio_lower_case:
  "resolve (''diagnosis_code'' # pivot_columns cleaned_lower) ''M'' = Inr ''m'' \<and>
   resolve (''diagnosis_code'' # pivot_columns cleaned_lower) ''F'' = Inr ''f'' \<and>
   gender_ratio_rows cleaned_lower ''m'' ''f''
     = [GenderRatio (Some ''D123'') (Some 1) :: string document]"
  by code_simp

text \<open>
  C7 on the cleaned extract. Code \<^verbatim>\<open>H234\<close> has no \<^verbatim>\<open>M\<close> row and one \<^verbatim>\<open>F\<close> row, so
  the count of \<^verbatim>\<open>M\<close> rows divided by the count of \<^verbatim>\<open>F\<close> rows is 0; the pivot has null,
  not 0, where a code has no row of a gender, and the row written for \<^verbatim>\<open>H234\<close> has a
  null ratio.
\<close>

theorem code_without_male_rows_has_null_ratio:
  "data_quality_check text_engine extract_0801 = Inr (cleaned_0801, report_0801) \<and>
   Some ''H234'' \<in> set (map diagnosis_code cleaned_0801) \<and>
   length (filter (\<lambda>r. diagnosis_code r = Some ''H234'' \<and> gender r = Some ''M'') cleaned_0801) = 0 \<and>
   length (filter (\<lambda>r. diagnosis_code r = Some ''H234'' \<and> gender r = Some ''F'') cleaned_0801) = 1 \<and>
   round_half_up (0 / 1) 2 = 0 \<and>
   (\<exists>w'. disease_gender_ratio cleaned_0801 world_0801 = Inr w' \<and>
      mset (store w' ''disease_gender_ratio_data'')
        = {#GenderRatio (Some ''D123'') (Some 1), GenderRatio (Some ''H234'') None#})"
proof -
  have c: "\<exists>w'. disease_gender_ratio cleaned_0801 world_0801 = Inr w' \<and>
      mset (store w' ''disease_gender_ratio_data'')
        = {#GenderRatio (Some ''D123'') (Some 1), GenderRatio (Some ''H234'') None#}"
    by (rule exI[of _ "world_0801\<lparr>store := mongo_append ''disease_gender_ratio_data''
            [GenderRatio (Some ''D123'') (Some 1), GenderRatio (Some ''H234'') None]
            (store world_0801)\<rparr>"])
      (simp add: gender_ratio_cleaned_0801 mongo_append_def world_0801_def write_document_def
        doc_id_def)
  have b: "Some ''H234'' \<in> set (map diagnosis_code cleaned_0801) \<and>
   length (filter (\<lambda>r. diagnosis_code r = Some ''H234'' \<and> gender r = Some ''M'') cleaned_0801) = 0 \<and>
   length (filter (\<lambda>r. diagnosis_code r = Some ''H234'' \<and> gender r = Some ''F'') cleaned_0801) = 1 \<and>
   round_half_up (0 / 1) 2 = 0"
    by code_simp
  show ?thesis using dqc_extract_0801 b c by (intro conjI) simp_all
qed

section \<open>Properties of the run\<close>

text \<open>A write of rows without an \<^verbatim>\<open>_id\<close> appends them; only the rows of a raw file can have one.\<close>

lemma foldl_write_document_plain:
  "\<forall>d \<in> set docs. doc_id d = None \<Longrightarrow> foldl write_document stored docs = stored @ docs"
  by (induction docs arbitrary: stored) (simp_all add: write_document_def)

lemma mongo_append_plain:
  "\<forall>d \<in> set docs. doc_id d = None \<Longrightarrow> mongo_append coll docs s = s(coll := s coll @ docs)"
  by (simp add: mongo_append_def foldl_write_document_plain)

lemma mongo_append_other: "c \<noteq> coll \<Longrightarrow> mongo_append coll docs s c = s c"
  by (simp add: mongo_append_def)

lemma mongo_append_same: "mongo_append coll docs s coll = foldl write_document (s coll) docs"
  by (simp add: mongo_append_def)

lemma doc_id_raw_row: "doc_id (RawRow (zip cols r)) = cell cols r ''_id''"
  by (simp add: doc_id_def cell_def split: option.splits)

lemma doc_id_rows:
  "\<forall>d \<in> set (gender_ratio_rows df m f). doc_id d = None"
  "\<forall>d \<in> set (most_common_diseases_rows df). doc_id d = None"
  "\<forall>d \<in> set (age_category_rows df). doc_id d = None"
  "\<forall>d \<in> set (senior_citizen_flag_rows df). doc_id d = None"
  "\<forall>d \<in> set (disease_trend_rows eng g). doc_id d = None"
  by (auto simp: gender_ratio_rows_def most_common_diseases_rows_def age_category_rows_def
      senior_citizen_flag_rows_def disease_trend_rows_def doc_id_def)

text \<open>What each step does to the state.\<close>

lemma read_and_save_raw_data_frame:
  assumes "read_and_save_raw_data w = Inr (df, w')"
  shows "map_of (files w) (get_date_filepath w) = Some df \<and>
         w' = w\<lparr>store := mongo_append collection_name
                            (map (\<lambda>r. RawRow (zip (columns df) r)) (rows df)) (store w)\<rparr>"
  using assms by (auto simp: read_and_save_raw_data_def split: option.splits)

lemma save_cleaning_report_plain:
  "save_cleaning_report rep w =
     w\<lparr>store := (store w)(''cleaning_report'' := store w ''cleaning_report'' @ [CleaningReport rep])\<rparr>"
  by (simp add: save_cleaning_report_def mongo_append_plain doc_id_def)

lemma most_common_diseases_plain:
  "most_common_diseases df w =
     w\<lparr>store := (store w)(''most_common_diseases_data'' :=
                    store w ''most_common_diseases_data'' @ most_common_diseases_rows df)\<rparr>"
  by (simp add: most_common_diseases_def mongo_append_plain doc_id_rows)

lemma age_category_plain:
  "age_category df w =
     w\<lparr>store := (store w)(''age_category_data'' :=
                    store w ''age_category_data'' @ age_category_rows df)\<rparr>"
  by (simp add: age_category_def mongo_append_plain doc_id_rows)

lemma senior_citizen_flag_plain:
  "senior_citizen_flag df w =
     w\<lparr>store := (store w)(''senior_citizen_flag_data'' :=
                    store w ''senior_citizen_flag_data'' @ senior_citizen_flag_rows df)\<rparr>"
  by (simp add: senior_citizen_flag_def mongo_append_plain doc_id_rows)

lemma disease_gender_ratio_frame:
  assumes "disease_gender_ratio df w = Inr w'"
  shows "\<exists>m f. resolve (''diagnosis_code'' # pivot_columns df) ''M'' = Inr m \<and>
           resolve (''diagnosis_code'' # pivot_columns df) ''F'' = Inr f \<and>
           w' = w\<lparr>store := (store w)(''disease_gender_ratio_data'' :=
                    store w ''disease_gender_ratio_data'' @ gender_ratio_rows df m f)\<rparr>"
  using assms
  by (auto simp: disease_gender_ratio_def Let_def mongo_append_plain doc_id_rows
      split: sum.splits)

lemma disease_trend_over_the_week_frame:
  assumes "disease_trend_over_the_week eng w = Inr w'"
  shows "\<exists>df. load_glob w = Inr df \<and>
           w' = w\<lparr>store := (store w)(''disease_trend_over_the_week_data'' :=
                    store w ''disease_trend_over_the_week_data'' @ disease_trend_rows eng df)\<rparr>"
  using assms
  by (auto simp: disease_trend_over_the_week_def mongo_append_plain doc_id_rows
      split: sum.splits if_splits)

lemma save_processing_date_info_frame:
  assumes "save_processing_date_info lib w = Inr w'"
  shows "\<exists>t t'. strptime lib (file_date w) = Inr t \<and> plus_one_day lib t = Inr t' \<and>
           w' = w\<lparr>file_date := strftime lib t'\<rparr>"
  using assms by (auto simp: save_processing_date_info_def split: sum.splits)

lemma load_glob_cong:
  "files w' = files w \<Longrightarrow> file_path w' = file_path w \<Longrightarrow> load_glob w' = load_glob w"
  by (simp add: load_glob_def)

text \<open>The run, case by case.\<close>

lemma main_cases:
  obtains
    (read_fails) e where "read_and_save_raw_data w = Inl e" "main eng lib w = (w, Some e)"
  | (check_fails) raw w1 e where "read_and_save_raw_data w = Inr (raw, w1)"
      "data_quality_check eng raw = Inl e" "main eng lib w = (w1, Some e)"
  | (ratio_fails) raw w1 q rep e where "read_and_save_raw_data w = Inr (raw, w1)"
      "data_quality_check eng raw = Inr (q, rep)"
      "disease_gender_ratio q (save_cleaning_report rep w1) = Inl e"
      "main eng lib w = (save_cleaning_report rep w1, Some e)"
  | (trend_fails) raw w1 q rep w3 e where "read_and_save_raw_data w = Inr (raw, w1)"
      "data_quality_check eng raw = Inr (q, rep)"
      "disease_gender_ratio q (save_cleaning_report rep w1) = Inr w3"
      "disease_trend_over_the_week eng
         (senior_citizen_flag q (age_category q (most_common_diseases q w3))) = Inl e"
      "main eng lib w = (senior_citizen_flag q (age_category q (most_common_diseases q w3)), Some e)"
  | (cursor_fails) raw w1 q rep w3 w7 e where "read_and_save_raw_data w = Inr (raw, w1)"
      "data_quality_check eng raw = Inr (q, rep)"
      "disease_gender_ratio q (save_cleaning_report rep w1) = Inr w3"
      "disease_trend_over_the_week eng
         (senior_citizen_flag q (age_category q (most_common_diseases q w3))) = Inr w7"
      "save_processing_date_info lib w7 = Inl e"
      "main eng lib w = (w7, Some e)"
  | (succeeds) raw w1 q rep w3 w7 w8 where "read_and_save_raw_data w = Inr (raw, w1)"
      "data_quality_check eng raw = Inr (q, rep)"
      "disease_gender_ratio q (save_cleaning_report rep w1) = Inr w3"
      "disease_trend_over_the_week eng
         (senior_citizen_flag q (age_category q (most_common_diseases q w3))) = Inr w7"
      "save_processing_date_info lib w7 = Inr w8"
      "main eng lib w = (w8, None)"
proof (cases "read_and_save_raw_data w")
  case (Inl e)
  then show ?thesis using read_fails by (simp add: main_def)
next
  case (Inr a)
  then obtain raw w1 where r: "read_and_save_raw_data w = Inr (raw, w1)" by (cases a) auto
  show ?thesis
  proof (cases "data_quality_check eng raw")
    case (Inl e)
    then show ?thesis using r check_fails by (simp add: main_def)
  next
    case (Inr b)
    then obtain q rep where d: "data_quality_check eng raw = Inr (q, rep)" by (cases b) auto
    show ?thesis
    proof (cases "disease_gender_ratio q (save_cleaning_report rep w1)")
      case (Inl e)
      then show ?thesis using r d ratio_fails by (simp add: main_def)
    next
      case g: (Inr w3)
      show ?thesis
      proof (cases "disease_trend_over_the_week eng
                      (senior_citizen_flag q (age_category q (most_common_diseases q w3)))")
        case (Inl e)
        then show ?thesis using r d g trend_fails by (simp add: main_def)
      next
        case t: (Inr w7)
        show ?thesis
        proof (cases "save_processing_date_info lib w7")
          case (Inl e)
          then show ?thesis using r d g t cursor_fails by (simp add: main_def)
        next
          case (Inr w8)
          then show ?thesis using r d g t succeeds by (simp add: main_def)
        qed
      qed
    qed
  qed
qed

lemma main_config:
  "(snd (main eng lib w) = None \<longrightarrow>
      (\<exists>t t'. strptime lib (file_date w) = Inr t \<and> plus_one_day lib t = Inr t' \<and>
               file_date (fst (main eng lib w)) = strftime lib t')) \<and>
   (snd (main eng lib w) \<noteq> None \<longrightarrow> file_date (fst (main eng lib w)) = file_date w) \<and>
   file_path (fst (main eng lib w)) = file_path w \<and>
   files (fst (main eng lib w)) = files w"
proof (cases rule: main_cases[of w eng lib])
  case (read_fails e)
  then show ?thesis by simp
next
  case (check_fails raw w1 e)
  then show ?thesis using read_and_save_raw_data_frame[of w raw w1] by auto
next
  case (ratio_fails raw w1 q rep e)
  then show ?thesis using read_and_save_raw_data_frame[of w raw w1]
    by (auto simp: save_cleaning_report_plain)
next
  case (trend_fails raw w1 q rep w3 e)
  then show ?thesis using read_and_save_raw_data_frame[of w raw w1]
      disease_gender_ratio_frame[of q "save_cleaning_report rep w1" w3]
    by (auto simp: save_cleaning_report_plain most_common_diseases_plain age_category_plain
        senior_citizen_flag_plain)
next
  case (cursor_fails raw w1 q rep w3 w7 e)
  then show ?thesis using read_and_save_raw_data_frame[of w raw w1]
      disease_gender_ratio_frame[of q "save_cleaning_report rep w1" w3]
      disease_trend_over_the_week_frame[of eng
        "senior_citizen_flag q (age_category q (most_common_diseases q w3))" w7]
    by (auto simp: save_cleaning_report_plain most_common_diseases_plain age_category_plain
        senior_citizen_flag_plain)
next
  case (succeeds raw w1 q rep w3 w7 w8)
  then show ?thesis using read_and_save_raw_data_frame[of w raw w1]
      disease_gender_ratio_frame[of q "save_cleaning_report rep w1" w3]
      disease_trend_over_the_week_frame[of eng
        "senior_citizen_flag q (age_category q (most_common_diseases q w3))" w7]
      save_processing_date_info_frame[of lib w7 w8]
    by (auto simp: save_cleaning_report_plain most_common_diseases_plain age_category_plain
        senior_citizen_flag_plain)
qed

text \<open>The raw collection after a run.\<close>

lemma main_raw_collection:
  "store (fst (main eng lib w)) collection_name =
     (case map_of (files w) (get_date_filepath w) of
        None \<Rightarrow> store w collection_name
      | Some df \<Rightarrow>
          foldl write_document (store w collection_name)
            (map (\<lambda>r. RawRow (zip (columns df) r)) (rows df)))"
proof (cases rule: main_cases[of w eng lib])
  case (read_fails e)
  then show ?thesis by (auto simp: read_and_save_raw_data_def split: option.splits)
next
  case (check_fails raw w1 e)
  then show ?thesis using read_and_save_raw_data_frame[of w raw w1]
    by (auto simp: mongo_append_same)
next
  case (ratio_fails raw w1 q rep e)
  then show ?thesis using read_and_save_raw_data_frame[of w raw w1]
    by (auto simp: mongo_append_same save_cleaning_report_plain collection_name_def)
next
  case (trend_fails raw w1 q rep w3 e)
  then show ?thesis using read_and_save_raw_data_frame[of w raw w1]
      disease_gender_ratio_frame[of q "save_cleaning_report rep w1" w3]
    by (auto simp: mongo_append_same save_cleaning_report_plain most_common_diseases_plain
        age_category_plain senior_citizen_flag_plain collection_name_def)
next
  case (cursor_fails raw w1 q rep w3 w7 e)
  then show ?thesis using read_and_save_raw_data_frame[of w raw w1]
      disease_gender_ratio_frame[of q "save_cleaning_report rep w1" w3]
      disease_trend_over_the_week_frame[of eng
        "senior_citizen_flag q (age_category q (most_common_diseases q w3))" w7]
    by (auto simp: mongo_append_same save_cleaning_report_plain most_common_diseases_plain
        age_category_plain senior_citizen_flag_plain collection_name_def)
next
  case (succeeds raw w1 q rep w3 w7 w8)
  then show ?thesis using read_and_save_raw_data_frame[of w raw w1]
      disease_gender_ratio_frame[of q "save_cleaning_report rep w1" w3]
      disease_trend_over_the_week_frame[of eng
        "senior_citizen_flag q (age_category q (most_common_diseases q w3))" w7]
      save_processing_date_info_frame[of lib w7 w8]
    by (auto simp: mongo_append_same save_cleaning_report_plain most_common_diseases_plain
        age_category_plain senior_citizen_flag_plain collection_name_def)
qed

text \<open>A run leaves every collection that is not a destination as it is.\<close>

lemma main_store_other:
  assumes "c \<notin> set destinations"
  shows "store (fst (main eng lib w)) c = store w c"
proof -
  from assms have ne: "c \<noteq> collection_name" "c \<noteq> ''cleaning_report''"
    "c \<noteq> ''disease_gender_ratio_data''" "c \<noteq> ''most_common_diseases_data''"
    "c \<noteq> ''age_category_data''" "c \<noteq> ''senior_citizen_flag_data''"
    "c \<noteq> ''disease_trend_over_the_week_data''"
    by (auto simp: destinations_def)
  show ?thesis
  proof (cases rule: main_cases[of w eng lib])
    case (read_fails e)
    then show ?thesis by simp
  next
    case (check_fails raw w1 e)
    then show ?thesis using read_and_save_raw_data_frame[of w raw w1] ne
      by (auto simp: mongo_append_other)
  next
    case (ratio_fails raw w1 q rep e)
    then show ?thesis using read_and_save_raw_data_frame[of w raw w1] ne
      by (auto simp: save_cleaning_report_plain mongo_append_other)
  next
    case (trend_fails raw w1 q rep w3 e)
    then show ?thesis using read_and_save_raw_data_frame[of w raw w1]
        disease_gender_ratio_frame[of q "save_cleaning_report rep w1" w3] ne
      by (auto simp: save_cleaning_report_plain most_common_diseases_plain age_category_plain
          senior_citizen_flag_plain mongo_append_other)
  next
    case (cursor_fails raw w1 q rep w3 w7 e)
    then show ?thesis using read_and_save_raw_data_frame[of w raw w1]
        disease_gender_ratio_frame[of q "save_cleaning_report rep w1" w3]
        disease_trend_over_the_week_frame[of eng
          "senior_citizen_flag q (age_category q (most_common_diseases q w3))" w7] ne
      by (auto simp: save_cleaning_report_plain most_common_diseases_plain age_category_plain
          senior_citizen_flag_plain mongo_append_other)
  next
    case (succeeds raw w1 q rep w3 w7 w8)
    then show ?thesis using read_and_save_raw_data_frame[of w raw w1]
        disease_gender_ratio_frame[of q "save_cleaning_report rep w1" w3]
        disease_trend_over_the_week_frame[of eng
          "senior_citizen_flag q (age_category q (most_common_diseases q w3))" w7]
        save_processing_date_info_frame[of lib w7 w8] ne
      by (auto simp: save_cleaning_report_plain most_common_diseases_plain age_category_plain
          senior_citizen_flag_plain mongo_append_other)
  qed
qed

text \<open>Every collection other than the raw one only grows, step by step.\<close>

lemma grows_read:
  "read_and_save_raw_data w = Inr (df, w') \<Longrightarrow> c \<noteq> collection_name \<Longrightarrow>
     prefix (store w c) (store w' c)"
  using read_and_save_raw_data_frame[of w df w'] by (auto simp: mongo_append_other)

lemma grows_report: "prefix (store w c) (store (save_cleaning_report rep w) c)"
  by (simp add: save_cleaning_report_plain)

lemma grows_ratio:
  "disease_gender_ratio df w = Inr w' \<Longrightarrow> prefix (store w c) (store w' c)"
  using disease_gender_ratio_frame[of df w w'] by auto

lemma grows_common: "prefix (store w c) (store (most_common_diseases df w) c)"
  by (simp add: most_common_diseases_plain)

lemma grows_age: "prefix (store w c) (store (age_category df w) c)"
  by (simp add: age_category_plain)

lemma grows_senior: "prefix (store w c) (store (senior_citizen_flag df w) c)"
  by (simp add: senior_citizen_flag_plain)

lemma grows_trend:
  "disease_trend_over_the_week eng w = Inr w' \<Longrightarrow> prefix (store w c) (store w' c)"
  using disease_trend_over_the_week_frame[of eng w w'] by auto

lemma grows_cursor:
  "save_processing_date_info lib w = Inr w' \<Longrightarrow> prefix (store w c) (store w' c)"
  using save_processing_date_info_frame[of lib w w'] by auto

lemma grows_aggregates:
  "prefix (store w c) (store (senior_citizen_flag q (age_category q (most_common_diseases q w))) c)"
  using grows_common[of w c q] grows_age[of "most_common_diseases q w" c q]
    grows_senior[of "age_category q (most_common_diseases q w)" c q]
  by (meson prefix_order.trans)

lemma main_grows:
  assumes "c \<noteq> collection_name"
  shows "prefix (store w c) (store (fst (main eng lib w)) c)"
proof (cases rule: main_cases[of w eng lib])
  case (read_fails e)
  then show ?thesis by simp
next
  case (check_fails raw w1 e)
  then show ?thesis using grows_read[OF check_fails(1) assms] by simp
next
  case (ratio_fails raw w1 q rep e)
  then show ?thesis
    using grows_read[OF ratio_fails(1) assms] grows_report[of w1 c rep]
    by (auto intro: prefix_order.trans)
next
  case (trend_fails raw w1 q rep w3 e)
  have "prefix (store w c) (store w1 c)" by (rule grows_read[OF trend_fails(1) assms])
  also have "prefix (store w1 c) (store (save_cleaning_report rep w1) c)" by (rule grows_report)
  also have "prefix (store (save_cleaning_report rep w1) c) (store w3 c)"
    by (rule grows_ratio[OF trend_fails(3)])
  also have "prefix (store w3 c)
      (store (senior_citizen_flag q (age_category q (most_common_diseases q w3))) c)"
    by (rule grows_aggregates)
  finally show ?thesis using trend_fails(5) by simp
next
  case (cursor_fails raw w1 q rep w3 w7 e)
  have "prefix (store w c) (store w1 c)" by (rule grows_read[OF cursor_fails(1) assms])
  also have "prefix (store w1 c) (store (save_cleaning_report rep w1) c)" by (rule grows_report)
  also have "prefix (store (save_cleaning_report rep w1) c) (store w3 c)"
    by (rule grows_ratio[OF cursor_fails(3)])
  also have "prefix (store w3 c)
      (store (senior_citizen_flag q (age_category q (most_common_diseases q w3))) c)"
    by (rule grows_aggregates)
  also have "prefix (store (senior_citizen_flag q (age_category q (most_common_diseases q w3))) c)
      (store w7 c)"
    by (rule grows_trend[OF cursor_fails(4)])
  finally show ?thesis using cursor_fails(6) by simp
next
  case (succeeds raw w1 q rep w3 w7 w8)
  have "prefix (store w c) (store w1 c)" by (rule grows_read[OF succeeds(1) assms])
  also have "prefix (store w1 c) (store (save_cleaning_report rep w1) c)" by (rule grows_report)
  also have "prefix (store (save_cleaning_report rep w1) c) (store w3 c)"
    by (rule grows_ratio[OF succeeds(3)])
  also have "prefix (store w3 c)
      (store (senior_citizen_flag q (age_category q (most_common_diseases q w3))) c)"
    by (rule grows_aggregates)
  also have "prefix (store (senior_citizen_flag q (age_category q (most_common_diseases q w3))) c)
      (store w7 c)"
    by (rule grows_trend[OF succeeds(4)])
  also have "prefix (store w7 c) (store w8 c)" by (rule grows_cursor[OF succeeds(5)])
  finally show ?thesis using succeeds(6) by simp
qed

text \<open>What a run in which every step succeeds has written, collection by collection.\<close>

lemma main_success_store:
  assumes "main eng lib w = (w', None)"
  shows "\<exists>raw q rep g m f.
     map_of (files w) (get_date_filepath w) = Some raw \<and>
     data_quality_check eng raw = Inr (q, rep) \<and>
     load_glob w = Inr g \<and>
     resolve (''diagnosis_code'' # pivot_columns q) ''M'' = Inr m \<and>
     resolve (''diagnosis_code'' # pivot_columns q) ''F'' = Inr f \<and>
     store w' collection_name =
       foldl write_document (store w collection_name)
         (map (\<lambda>r. RawRow (zip (columns raw) r)) (rows raw)) \<and>
     store w' ''cleaning_report'' = store w ''cleaning_report'' @ [CleaningReport rep] \<and>
     store w' ''disease_gender_ratio_data'' =
       store w ''disease_gender_ratio_data'' @ gender_ratio_rows q m f \<and>
     store w' ''most_common_diseases_data'' =
       store w ''most_common_diseases_data'' @ most_common_diseases_rows q \<and>
     store w' ''age_category_data'' = store w ''age_category_data'' @ age_category_rows q \<and>
     store w' ''senior_citizen_flag_data'' =
       store w ''senior_citizen_flag_data'' @ senior_citizen_flag_rows q \<and>
     store w' ''disease_trend_over_the_week_data'' =
       store w ''disease_trend_over_the_week_data'' @ disease_trend_rows eng g"
proof (cases rule: main_cases[of w eng lib])
  case (succeeds raw w1 q rep w3 w7 w8)
  from succeeds(1) have raw: "map_of (files w) (get_date_filepath w) = Some raw"
    and w1: "w1 = w\<lparr>store := mongo_append collection_name
                            (map (\<lambda>r. RawRow (zip (columns raw) r)) (rows raw)) (store w)\<rparr>"
    using read_and_save_raw_data_frame by blast+
  from succeeds(3) obtain m f where
    m: "resolve (''diagnosis_code'' # pivot_columns q) ''M'' = Inr m" and
    f: "resolve (''diagnosis_code'' # pivot_columns q) ''F'' = Inr f" and
    w3: "w3 = (save_cleaning_report rep w1)\<lparr>store :=
        (store (save_cleaning_report rep w1))(''disease_gender_ratio_data'' :=
           store (save_cleaning_report rep w1) ''disease_gender_ratio_data''
           @ gender_ratio_rows q m f)\<rparr>"
    using disease_gender_ratio_frame by blast
  from succeeds(4) obtain g where
    g: "load_glob (senior_citizen_flag q (age_category q (most_common_diseases q w3))) = Inr g"
    and w7: "w7 = (senior_citizen_flag q (age_category q (most_common_diseases q w3)))\<lparr>store :=
        (store (senior_citizen_flag q (age_category q (most_common_diseases q w3))))
          (''disease_trend_over_the_week_data'' :=
             store (senior_citizen_flag q (age_category q (most_common_diseases q w3)))
               ''disease_trend_over_the_week_data'' @ disease_trend_rows eng g)\<rparr>"
    using disease_trend_over_the_week_frame by blast
  from succeeds(5) obtain t' where w8: "w8 = w7\<lparr>file_date := strftime lib t'\<rparr>"
    using save_processing_date_info_frame by blast
  have "load_glob (senior_citizen_flag q (age_category q (most_common_diseases q w3))) = load_glob w"
    by (rule load_glob_cong)
      (simp_all add: w3 w1 save_cleaning_report_plain most_common_diseases_plain
        age_category_plain senior_citizen_flag_plain)
  with g have g': "load_glob w = Inr g" by simp
  have w': "w' = w8" using succeeds(6) assms by simp
  have s: "store w' collection_name =
       foldl write_document (store w collection_name)
         (map (\<lambda>r. RawRow (zip (columns raw) r)) (rows raw))"
    "store w' ''cleaning_report'' = store w ''cleaning_report'' @ [CleaningReport rep]"
    "store w' ''disease_gender_ratio_data'' =
       store w ''disease_gender_ratio_data'' @ gender_ratio_rows q m f"
    "store w' ''most_common_diseases_data'' =
       store w ''most_common_diseases_data'' @ most_common_diseases_rows q"
    "store w' ''age_category_data'' = store w ''age_category_data'' @ age_category_rows q"
    "store w' ''senior_citizen_flag_data'' =
       store w ''senior_citizen_flag_data'' @ senior_citizen_flag_rows q"
    "store w' ''disease_trend_over_the_week_data'' =
       store w ''disease_trend_over_the_week_data'' @ disease_trend_rows eng g"
    by (simp_all add: w' w8 w7 w3 w1 save_cleaning_report_plain most_common_diseases_plain
        age_category_plain senior_citizen_flag_plain mongo_append_def collection_name_def)
  show ?thesis
    by (rule exI[of _ raw], rule exI[of _ q], rule exI[of _ rep], rule exI[of _ g],
        rule exI[of _ m], rule exI[of _ f])
      (intro conjI raw succeeds(2) g' m f s)
qed (use assms in simp_all)

text \<open>
  When no row of today's file has an \<^verbatim>\<open>_id\<close>, a run does to a longer store what it does
  to a shorter one.
\<close>

lemma read_and_save_raw_data_shift:
  assumes "\<forall>df. map_of (files w) (get_date_filepath w) = Some df \<longrightarrow>
             (\<forall>r \<in> set (rows df). cell (columns df) r ''_id'' = None)"
  shows "read_and_save_raw_data (w\<lparr>store := (\<lambda>c. s c @ store w c)\<rparr>) =
     map_sum id (\<lambda>(df, w'). (df, w'\<lparr>store := (\<lambda>c. s c @ store w' c)\<rparr>))
       (read_and_save_raw_data w)"
proof (cases "map_of (files w) (get_date_filepath w)")
  case None
  then show ?thesis by (simp add: read_and_save_raw_data_def get_date_filepath_def)
next
  case (Some df)
  with assms have "\<forall>d \<in> set (map (\<lambda>r. RawRow (zip (columns df) r)) (rows df)). doc_id d = None"
    by (simp add: doc_id_raw_row)
  then show ?thesis using Some
    by (simp add: read_and_save_raw_data_def get_date_filepath_def mongo_append_plain fun_eq_iff)
qed

lemma save_cleaning_report_shift:
  "save_cleaning_report rep (w\<lparr>store := (\<lambda>c. s c @ store w c)\<rparr>) =
     (save_cleaning_report rep w)\<lparr>store := (\<lambda>c. s c @ store (save_cleaning_report rep w) c)\<rparr>"
  by (simp add: save_cleaning_report_plain fun_eq_iff)

lemma disease_gender_ratio_shift:
  "disease_gender_ratio df (w\<lparr>store := (\<lambda>c. s c @ store w c)\<rparr>) =
     map_sum id (\<lambda>w'. w'\<lparr>store := (\<lambda>c. s c @ store w' c)\<rparr>) (disease_gender_ratio df w)"
  by (simp add: disease_gender_ratio_def Let_def mongo_append_plain doc_id_rows fun_eq_iff
      split: sum.splits)

lemma most_common_diseases_shift:
  "most_common_diseases df (w\<lparr>store := (\<lambda>c. s c @ store w c)\<rparr>) =
     (most_common_diseases df w)\<lparr>store := (\<lambda>c. s c @ store (most_common_diseases df w) c)\<rparr>"
  by (simp add: most_common_diseases_plain fun_eq_iff)

lemma age_category_shift:
  "age_category df (w\<lparr>store := (\<lambda>c. s c @ store w c)\<rparr>) =
     (age_category df w)\<lparr>store := (\<lambda>c. s c @ store (age_category df w) c)\<rparr>"
  by (simp add: age_category_plain fun_eq_iff)

lemma senior_citizen_flag_shift:
  "senior_citizen_flag df (w\<lparr>store := (\<lambda>c. s c @ store w c)\<rparr>) =
     (senior_citizen_flag df w)\<lparr>store := (\<lambda>c. s c @ store (senior_citizen_flag df w) c)\<rparr>"
  by (simp add: senior_citizen_flag_plain fun_eq_iff)

lemma disease_trend_over_the_week_shift:
  "disease_trend_over_the_week eng (w\<lparr>store := (\<lambda>c. s c @ store w c)\<rparr>) =
     map_sum id (\<lambda>w'. w'\<lparr>store := (\<lambda>c. s c @ store w' c)\<rparr>)
       (disease_trend_over_the_week eng w)"
  by (simp add: disease_trend_over_the_week_def load_glob_def mongo_append_plain doc_id_rows
      fun_eq_iff split: sum.splits list.splits prod.splits)

lemma save_processing_date_info_shift:
  "save_processing_date_info lib (w\<lparr>store := (\<lambda>c. s c @ store w c)\<rparr>) =
     map_sum id (\<lambda>w'. w'\<lparr>store := (\<lambda>c. s c @ store w' c)\<rparr>)
       (save_processing_date_info lib w)"
  by (simp add: save_processing_date_info_def split: sum.splits)

lemmas shift_simps = save_cleaning_report_shift
  disease_gender_ratio_shift most_common_diseases_shift age_category_shift
  senior_citizen_flag_shift disease_trend_over_the_week_shift save_processing_date_info_shift

lemma main_shift:
  assumes "\<forall>df. map_of (files w) (get_date_filepath w) = Some df \<longrightarrow>
             (\<forall>r \<in> set (rows df). cell (columns df) r ''_id'' = None)"
  shows "main eng lib (w\<lparr>store := (\<lambda>c. s c @ store w c)\<rparr>) =
     (case main eng lib w of (w', e) \<Rightarrow> (w'\<lparr>store := (\<lambda>c. s c @ store w' c)\<rparr>, e))"
proof (cases "read_and_save_raw_data w")
  case (Inl e)
  then show ?thesis by (simp add: main_def read_and_save_raw_data_shift[OF assms])
next
  case (Inr a)
  then obtain raw w1 where r: "read_and_save_raw_data w = Inr (raw, w1)" by (cases a) auto
  note rs = read_and_save_raw_data_shift[OF assms]
  show ?thesis
  proof (cases "data_quality_check eng raw")
    case (Inl e)
    then show ?thesis using r by (simp add: main_def rs)
  next
    case (Inr b)
    then obtain q rep where d: "data_quality_check eng raw = Inr (q, rep)" by (cases b) auto
    show ?thesis
    proof (cases "disease_gender_ratio q (save_cleaning_report rep w1)")
      case (Inl e)
      then show ?thesis using r d
        by (simp add: main_def rs save_cleaning_report_shift disease_gender_ratio_shift)
    next
      case g: (Inr w3)
      show ?thesis
      proof (cases "disease_trend_over_the_week eng
                      (senior_citizen_flag q (age_category q (most_common_diseases q w3)))")
        case (Inl e)
        then show ?thesis using r d g
          by (simp add: main_def rs shift_simps)
      next
        case t: (Inr w7)
        show ?thesis using r d g t
          by (cases "save_processing_date_info lib w7") (simp_all add: main_def rs shift_simps)
      qed
    qed
  qed
qed

lemma main_store_frame:
  assumes "\<forall>df. map_of (files w) (get_date_filepath w) = Some df \<longrightarrow>
             (\<forall>r \<in> set (rows df). cell (columns df) r ''_id'' = None)"
  shows "main eng lib (w\<lparr>store := s\<rparr>) =
     (case main eng lib (w\<lparr>store := (\<lambda>c. [])\<rparr>) of
        (w', e) \<Rightarrow> (w'\<lparr>store := (\<lambda>c. s c @ store w' c)\<rparr>, e))"
proof -
  from assms have "\<forall>df. map_of (files (w\<lparr>store := (\<lambda>c. [])\<rparr>))
        (get_date_filepath (w\<lparr>store := (\<lambda>c. [])\<rparr>)) = Some df \<longrightarrow>
             (\<forall>r \<in> set (rows df). cell (columns df) r ''_id'' = None)"
    by (simp add: get_date_filepath_def)
  from main_shift[OF this, where s = s and eng = eng and lib = lib] show ?thesis by simp
qed

lemma main_error_store_independent:
  assumes "\<forall>df. map_of (files w) (get_date_filepath w) = Some df \<longrightarrow>
             (\<forall>r \<in> set (rows df). cell (columns df) r ''_id'' = None)"
  shows "snd (main eng lib (w\<lparr>store := s\<rparr>)) = snd (main eng lib (w\<lparr>store := t\<rparr>))"
  using main_store_frame[OF assms, where eng = eng and lib = lib and s = s]
    main_store_frame[OF assms, where eng = eng and lib = lib and s = t]
  by (simp split: prod.splits)

lemma main_store_appends:
  assumes "\<forall>df. map_of (files w) (get_date_filepath w) = Some df \<longrightarrow>
             (\<forall>r \<in> set (rows df). cell (columns df) r ''_id'' = None)"
  shows "store (fst (main eng lib (w\<lparr>store := s\<rparr>))) =
     (\<lambda>c. s c @ store (fst (main eng lib (w\<lparr>store := (\<lambda>c. [])\<rparr>))) c)"
  using main_store_frame[OF assms, where eng = eng and lib = lib and s = s]
  by (simp split: prod.splits)

lemma glob_match_0801: "glob_match ''/data/'' ''/data/health_data_20230801.csv''"
  by code_simp

lemma main_world_0801_succeeds: "snd (main text_engine ymd_lib world_0801) = None"
proof -
  have r: "read_and_save_raw_data world_0801 =
      Inr (extract_0801, world_0801\<lparr>store := mongo_append collection_name
             (map (\<lambda>r. RawRow (zip (columns extract_0801) r)) (rows extract_0801))
             (store world_0801)\<rparr>)"
    by (simp add: read_and_save_raw_data_def get_date_filepath_def world_0801_def)
  have l: "load_glob w = Inr extract_0801"
    if "files w = files world_0801" "file_path w = file_path world_0801" for w :: "string world"
    using that glob_match_0801 by (simp add: load_glob_def world_0801_def)
  have c: "''diagnosis_date'' \<in> set (columns extract_0801)"
    "''diagnosis_description'' \<in> set (columns extract_0801)"
    by (simp_all add: extract_0801_def)
  have d: "save_processing_date_info ymd_lib w \<noteq> Inl e"
    if "file_date w = file_date world_0801" for w :: "string world" and e
  proof -
    have "strptime ymd_lib ''20230801'' = Inr (2023, 8, 1)" by code_simp
    moreover have "plus_one_day ymd_lib (2023, 8, 1) = Inr (2023, 8, 2)" by code_simp
    ultimately show ?thesis using that
      by (simp add: save_processing_date_info_def world_0801_def)
  qed
  show ?thesis
  proof (cases rule: main_cases[of world_0801 text_engine ymd_lib])
    case (read_fails e)
    then show ?thesis using r by simp
  next
    case (check_fails raw w1 e)
    then show ?thesis using r dqc_extract_0801 by simp
  next
    case (ratio_fails raw w1 q rep e)
    then show ?thesis using r dqc_extract_0801 by (simp add: gender_ratio_cleaned_0801)
  next
    case (trend_fails raw w1 q rep w3 e)
    have "files (senior_citizen_flag q (age_category q (most_common_diseases q w3))) = files world_0801"
      "file_path (senior_citizen_flag q (age_category q (most_common_diseases q w3))) = file_path world_0801"
      using trend_fails(1,3) r disease_gender_ratio_frame[of q "save_cleaning_report rep w1" w3]
      by (auto simp: save_cleaning_report_plain most_common_diseases_plain age_category_plain
          senior_citizen_flag_plain)
    from l[OF this] trend_fails(4) c show ?thesis
      by (simp add: disease_trend_over_the_week_def)
  next
    case (cursor_fails raw w1 q rep w3 w7 e)
    have "file_date w7 = file_date world_0801"
      using cursor_fails(1,3,4) r disease_gender_ratio_frame[of q "save_cleaning_report rep w1" w3]
        disease_trend_over_the_week_frame[of text_engine
          "senior_citizen_flag q (age_category q (most_common_diseases q w3))" w7]
      by (auto simp: save_cleaning_report_plain most_common_diseases_plain age_category_plain
          senior_citizen_flag_plain)
    from d[OF this, of e] cursor_fails(5) show ?thesis by blast
  next
    case (succeeds raw w1 q rep w3 w7 w8)
    then show ?thesis by simp
  qed
qed

lemma main_world_0803_fails:
  "main text_engine ymd_lib world_0803 = (world_0803, Some (AnalysisException ''Path does not exist''))"
  by (simp add: main_def read_and_save_raw_data_def get_date_filepath_def world_0803_def
      world_0801_def)

text \<open>
  C6. After a run in which every step succeeds the persisted \<^verbatim>\<open>file_date\<close> is the old
  date, parsed, plus one day, formatted again; after a run in which a step raises it is
  the old date. The cursor update is the last step, so an earlier exception skips it, and
  when its own parsing or addition raises nothing is written.
\<close>

theorem cursor_advances_only_on_success:
  "(snd (main eng lib w) = None \<longrightarrow>
      (\<exists>t t'. strptime lib (file_date w) = Inr t \<and> plus_one_day lib t = Inr t' \<and>
               file_date (fst (main eng lib w)) = strftime lib t')) \<and>
   (snd (main eng lib w) \<noteq> None \<longrightarrow> file_date (fst (main eng lib w)) = file_date w)"
  using main_config[of eng lib w] by blast

theorem cursor_advances_only_on_success_witness:
  "snd (main text_engine ymd_lib world_0801) = None \<and>
   file_date world_0801 = ''20230801'' \<and>
   file_date (fst (main text_engine ymd_lib world_0801)) = ''20230802'' \<and>
   snd (main text_engine ymd_lib world_0803) \<noteq> None \<and>
   file_date (fst (main text_engine ymd_lib world_0803)) = file_date world_0803"
proof -
  have p: "strptime ymd_lib ''20230801'' = Inr (2023, 8, 1)" by code_simp
  have q: "plus_one_day ymd_lib (2023, 8, 1) = Inr (2023, 8, 2)" by code_simp
  have f: "strftime ymd_lib (2023, 8, 2) = ''20230802''" by code_simp
  have d: "file_date world_0801 = ''20230801''" by (simp add: world_0801_def)
  from cursor_advances_only_on_success[of text_engine ymd_lib world_0801]
    main_world_0801_succeeds
  have "file_date (fst (main text_engine ymd_lib world_0801)) = ''20230802''"
    using p q f d by auto
  moreover from cursor_advances_only_on_success[of text_engine ymd_lib world_0803]
    main_world_0803_fails
  have "file_date (fst (main text_engine ymd_lib world_0803)) = file_date world_0803"
    by simp
  ultimately show ?thesis using main_world_0801_succeeds main_world_0803_fails d by simp
qed

text \<open>
  C8, amended. The seven destinations are distinct, and a run only appends to every
  collection other than the raw one. When no row of today's file has an \<^verbatim>\<open>_id\<close>, a run
  maps every store \<open>s\<close> to \<open>s\<close> with some rows \<open>out c\<close> appended to each collection \<open>c\<close>:
  what was there stays in place, \<open>out\<close> does not depend on \<open>s\<close> (no destination is read
  back), nothing is written outside the seven destinations, and a second run on the same
  files and configuration appends the same rows again. When every step succeeds, \<open>out\<close>
  holds the raw rows, the cleaning report and the five aggregates, each in its own
  collection.
\<close>

theorem writes_append_only:
  "distinct destinations \<and>
   (\<forall>c. c \<noteq> collection_name \<longrightarrow> (\<exists>ys. store (fst (main eng lib w)) c = store w c @ ys)) \<and>
   ((\<forall>df. map_of (files w) (get_date_filepath w) = Some df \<longrightarrow>
           (\<forall>r \<in> set (rows df). cell (columns df) r ''_id'' = None)) \<longrightarrow>
    (\<exists>out.
      (\<forall>s. store (fst (main eng lib (w\<lparr>store := s\<rparr>))) = (\<lambda>c. s c @ out c)) \<and>
      (\<forall>c. c \<notin> set destinations \<longrightarrow> out c = []) \<and>
      (\<forall>s. store (fst (main eng lib (w\<lparr>store := store (fst (main eng lib (w\<lparr>store := s\<rparr>)))\<rparr>)))
             = (\<lambda>c. s c @ out c @ out c)) \<and>
      (snd (main eng lib w) = None \<longrightarrow>
         (\<exists>raw q rep g m f.
            map_of (files w) (get_date_filepath w) = Some raw \<and>
            data_quality_check eng raw = Inr (q, rep) \<and>
            load_glob w = Inr g \<and>
            resolve (''diagnosis_code'' # pivot_columns q) ''M'' = Inr m \<and>
            resolve (''diagnosis_code'' # pivot_columns q) ''F'' = Inr f \<and>
            mset (out collection_name) = mset (map (\<lambda>r. RawRow (zip (columns raw) r)) (rows raw)) \<and>
            mset (out ''cleaning_report'') = {#CleaningReport rep#} \<and>
            mset (out ''disease_gender_ratio_data'') = mset (gender_ratio_rows q m f) \<and>
            mset (out ''most_common_diseases_data'') = mset (most_common_diseases_rows q) \<and>
            mset (out ''age_category_data'') = mset (age_category_rows q) \<and>
            mset (out ''senior_citizen_flag_data'') = mset (senior_citizen_flag_rows q) \<and>
            mset (out ''disease_trend_over_the_week_data'') = mset (disease_trend_rows eng g)))))"
proof (intro conjI allI impI)
  show "distinct destinations"
    by (simp add: destinations_def collection_name_def)
next
  fix c :: string
  assume "c \<noteq> collection_name"
  then show "\<exists>ys. store (fst (main eng lib w)) c = store w c @ ys"
    using main_grows[of c w eng lib] by (simp add: prefix_def)
next
  assume h: "\<forall>df. map_of (files w) (get_date_filepath w) = Some df \<longrightarrow>
           (\<forall>r \<in> set (rows df). cell (columns df) r ''_id'' = None)"
  define w0 where "w0 = w\<lparr>store := (\<lambda>c. [])\<rparr>"
  define out where "out = store (fst (main eng lib w0))"
  have a: "store (fst (main eng lib (w\<lparr>store := s\<rparr>))) = (\<lambda>c. s c @ out c)" for s
    unfolding out_def w0_def by (rule main_store_appends[OF h])
  have b: "out c = []" if "c \<notin> set destinations" for c
    using main_store_other[OF that, of eng lib w0] by (simp add: out_def w0_def)
  have c: "store (fst (main eng lib (w\<lparr>store := store (fst (main eng lib (w\<lparr>store := s\<rparr>)))\<rparr>)))
             = (\<lambda>c. s c @ out c @ out c)" for s
    by (simp add: a)
  have e: "\<exists>raw q rep g m f.
            map_of (files w) (get_date_filepath w) = Some raw \<and>
            data_quality_check eng raw = Inr (q, rep) \<and>
            load_glob w = Inr g \<and>
            resolve (''diagnosis_code'' # pivot_columns q) ''M'' = Inr m \<and>
            resolve (''diagnosis_code'' # pivot_columns q) ''F'' = Inr f \<and>
            mset (out collection_name) = mset (map (\<lambda>r. RawRow (zip (columns raw) r)) (rows raw)) \<and>
            mset (out ''cleaning_report'') = {#CleaningReport rep#} \<and>
            mset (out ''disease_gender_ratio_data'') = mset (gender_ratio_rows q m f) \<and>
            mset (out ''most_common_diseases_data'') = mset (most_common_diseases_rows q) \<and>
            mset (out ''age_category_data'') = mset (age_category_rows q) \<and>
            mset (out ''senior_citizen_flag_data'') = mset (senior_citizen_flag_rows q) \<and>
            mset (out ''disease_trend_over_the_week_data'') = mset (disease_trend_rows eng g)"
    if "snd (main eng lib w) = None"
  proof -
    have "snd (main eng lib w0) = None"
      using that main_error_store_independent[OF h, where eng = eng and lib = lib
          and s = "store w" and t = "\<lambda>c. []"]
      by (simp add: w0_def)
    then have "main eng lib w0 = (fst (main eng lib w0), None)"
      by (metis prod.collapse)
    from main_success_store[OF this] obtain raw q rep g m f where
      r: "map_of (files w0) (get_date_filepath w0) = Some raw" and
      d: "data_quality_check eng raw = Inr (q, rep)" and
      l: "load_glob w0 = Inr g" and
      m: "resolve (''diagnosis_code'' # pivot_columns q) ''M'' = Inr m" and
      f: "resolve (''diagnosis_code'' # pivot_columns q) ''F'' = Inr f" and
      s: "store (fst (main eng lib w0)) collection_name =
            foldl write_document (store w0 collection_name)
              (map (\<lambda>r. RawRow (zip (columns raw) r)) (rows raw))"
        "store (fst (main eng lib w0)) ''cleaning_report'' = store w0 ''cleaning_report'' @ [CleaningReport rep]"
        "store (fst (main eng lib w0)) ''disease_gender_ratio_data'' =
           store w0 ''disease_gender_ratio_data'' @ gender_ratio_rows q m f"
        "store (fst (main eng lib w0)) ''most_common_diseases_data'' =
           store w0 ''most_common_diseases_data'' @ most_common_diseases_rows q"
        "store (fst (main eng lib w0)) ''age_category_data'' = store w0 ''age_category_data'' @ age_category_rows q"
        "store (fst (main eng lib w0)) ''senior_citizen_flag_data'' =
           store w0 ''senior_citizen_flag_data'' @ senior_citizen_flag_rows q"
        "store (fst (main eng lib w0)) ''disease_trend_over_the_week_data'' =
           store w0 ''disease_trend_over_the_week_data'' @ disease_trend_rows eng g"
      by (elim exE conjE) (rule that)
    have r': "map_of (files w) (get_date_filepath w) = Some raw"
      using r by (simp add: w0_def get_date_filepath_def)
    have l': "load_glob w = Inr g" using l by (simp add: w0_def load_glob_def)
    from h r' have "\<forall>d \<in> set (map (\<lambda>r. RawRow (zip (columns raw) r)) (rows raw)). doc_id d = None"
      by (simp add: doc_id_raw_row)
    then have s1: "out collection_name = map (\<lambda>r. RawRow (zip (columns raw) r)) (rows raw)"
      using s(1) by (simp add: foldl_write_document_plain w0_def out_def)
    have s2: "mset (out ''cleaning_report'') = {#CleaningReport rep#}"
      "mset (out ''disease_gender_ratio_data'') = mset (gender_ratio_rows q m f)"
      "mset (out ''most_common_diseases_data'') = mset (most_common_diseases_rows q)"
      "mset (out ''age_category_data'') = mset (age_category_rows q)"
      "mset (out ''senior_citizen_flag_data'') = mset (senior_citizen_flag_rows q)"
      "mset (out ''disease_trend_over_the_week_data'') = mset (disease_trend_rows eng g)"
      using s(2-7) by (simp_all add: w0_def out_def)
    have s1': "mset (out collection_name) = mset (map (\<lambda>r. RawRow (zip (columns raw) r)) (rows raw))"
      by (simp only: s1)
    show ?thesis
      by (rule exI[of _ raw], rule exI[of _ q], rule exI[of _ rep], rule exI[of _ g],
          rule exI[of _ m], rule exI[of _ f])
        (intro conjI r' d l' m f s1' s2)
  qed
  show "\<exists>out.
      (\<forall>s. store (fst (main eng lib (w\<lparr>store := s\<rparr>))) = (\<lambda>c. s c @ out c)) \<and>
      (\<forall>c. c \<notin> set destinations \<longrightarrow> out c = []) \<and>
      (\<forall>s. store (fst (main eng lib (w\<lparr>store := store (fst (main eng lib (w\<lparr>store := s\<rparr>)))\<rparr>)))
             = (\<lambda>c. s c @ out c @ out c)) \<and>
      (snd (main eng lib w) = None \<longrightarrow>
         (\<exists>raw q rep g m f.
            map_of (files w) (get_date_filepath w) = Some raw \<and>
            data_quality_check eng raw = Inr (q, rep) \<and>
            load_glob w = Inr g \<and>
            resolve (''diagnosis_code'' # pivot_columns q) ''M'' = Inr m \<and>
            resolve (''diagnosis_code'' # pivot_columns q) ''F'' = Inr f \<and>
            mset (out collection_name) = mset (map (\<lambda>r. RawRow (zip (columns raw) r)) (rows raw)) \<and>
            mset (out ''cleaning_report'') = {#CleaningReport rep#} \<and>
            mset (out ''disease_gender_ratio_data'') = mset (gender_ratio_rows q m f) \<and>
            mset (out ''most_common_diseases_data'') = mset (most_common_diseases_rows q) \<and>
            mset (out ''age_category_data'') = mset (age_category_rows q) \<and>
            mset (out ''senior_citizen_flag_data'') = mset (senior_citizen_flag_rows q) \<and>
            mset (out ''disease_trend_over_the_week_data'') = mset (disease_trend_rows eng g)))"
    by (rule exI[of _ out], intro conjI allI impI) (rule a, erule b, rule c, erule e)
qed

lemma rows_0801:
  "map (\<lambda>r. RawRow (zip (columns extract_0801) r)) (rows extract_0801)
     = written_0801 ''healthcare_raw_data''"
  "most_common_diseases_rows cleaned_0801 = written_0801 ''most_common_diseases_data''"
  "age_category_rows cleaned_0801 = written_0801 ''age_category_data''"
  "senior_citizen_flag_rows cleaned_0801 = written_0801 ''senior_citizen_flag_data''"
  "disease_trend_rows text_engine extract_0801 = written_0801 ''disease_trend_over_the_week_data''"
  "gender_ratio_rows cleaned_0801 ''M'' ''F'' = written_0801 ''disease_gender_ratio_data''"
  "[CleaningReport report_0801] = written_0801 ''cleaning_report''"
  by code_simp+

lemma written_0801_other: "c \<notin> set destinations \<Longrightarrow> written_0801 c = []"
  by (simp add: written_0801_def destinations_def collection_name_def)

lemma load_glob_world_0801: "load_glob world_0801 = Inr extract_0801"
  using glob_match_0801 by (simp add: load_glob_def world_0801_def)

theorem writes_append_only_witness:
  "snd (main text_engine ymd_lib world_0801) = None \<and>
   (\<forall>c. mset (store (fst (main text_engine ymd_lib world_0801)) c) = mset (written_0801 c)) \<and>
   (\<forall>c. mset (store (fst (main text_engine ymd_lib
             (world_0801\<lparr>store := store (fst (main text_engine ymd_lib world_0801))\<rparr>))) c)
        = mset (written_0801 c @ written_0801 c))"
proof -
  have w: "world_0801\<lparr>store := (\<lambda>c. [])\<rparr> = world_0801"
    by (simp add: world_0801_def)
  have f: "map_of (files world_0801) (get_date_filepath world_0801) = Some extract_0801"
    by (simp add: world_0801_def get_date_filepath_def)
  have n: "\<forall>r \<in> set (rows extract_0801). cell (columns extract_0801) r ''_id'' = None"
    by (simp add: extract_0801_def cell_def)
  have h: "\<forall>df. map_of (files world_0801) (get_date_filepath world_0801) = Some df \<longrightarrow>
           (\<forall>r \<in> set (rows df). cell (columns df) r ''_id'' = None)"
    using f n by simp
  note t = writes_append_only[of text_engine ymd_lib world_0801, THEN conjunct2, THEN conjunct2,
      THEN mp, OF h]
  from t obtain out where
    a: "\<forall>s. store (fst (main text_engine ymd_lib (world_0801\<lparr>store := s\<rparr>))) = (\<lambda>c. s c @ out c)"
    and b: "\<forall>c. c \<notin> set destinations \<longrightarrow> out c = []"
    and c: "\<forall>s. store (fst (main text_engine ymd_lib
               (world_0801\<lparr>store := store (fst (main text_engine ymd_lib
                  (world_0801\<lparr>store := s\<rparr>)))\<rparr>))) = (\<lambda>c. s c @ out c @ out c)"
    and e: "snd (main text_engine ymd_lib world_0801) = None \<longrightarrow>
         (\<exists>raw q rep g m f.
            map_of (files world_0801) (get_date_filepath world_0801) = Some raw \<and>
            data_quality_check text_engine raw = Inr (q, rep) \<and>
            load_glob world_0801 = Inr g \<and>
            resolve (''diagnosis_code'' # pivot_columns q) ''M'' = Inr m \<and>
            resolve (''diagnosis_code'' # pivot_columns q) ''F'' = Inr f \<and>
            mset (out collection_name) = mset (map (\<lambda>r. RawRow (zip (columns raw) r)) (rows raw)) \<and>
            mset (out ''cleaning_report'') = {#CleaningReport rep#} \<and>
            mset (out ''disease_gender_ratio_data'') = mset (gender_ratio_rows q m f) \<and>
            mset (out ''most_common_diseases_data'') = mset (most_common_diseases_rows q) \<and>
            mset (out ''age_category_data'') = mset (age_category_rows q) \<and>
            mset (out ''senior_citizen_flag_data'') = mset (senior_citizen_flag_rows q) \<and>
            mset (out ''disease_trend_over_the_week_data'')
              = mset (disease_trend_rows text_engine g))"
    by (elim conjE exE) (rule that)
  from e main_world_0801_succeeds obtain raw q rep g m f where
    r: "map_of (files world_0801) (get_date_filepath world_0801) = Some raw" and
    d: "data_quality_check text_engine raw = Inr (q, rep)" and
    l: "load_glob world_0801 = Inr g" and
    m: "resolve (''diagnosis_code'' # pivot_columns q) ''M'' = Inr m" and
    f': "resolve (''diagnosis_code'' # pivot_columns q) ''F'' = Inr f" and
    o: "mset (out collection_name) = mset (map (\<lambda>r. RawRow (zip (columns raw) r)) (rows raw))"
       "mset (out ''cleaning_report'') = {#CleaningReport rep#}"
       "mset (out ''disease_gender_ratio_data'') = mset (gender_ratio_rows q m f)"
       "mset (out ''most_common_diseases_data'') = mset (most_common_diseases_rows q)"
       "mset (out ''age_category_data'') = mset (age_category_rows q)"
       "mset (out ''senior_citizen_flag_data'') = mset (senior_citizen_flag_rows q)"
       "mset (out ''disease_trend_over_the_week_data'') = mset (disease_trend_rows text_engine g)"
    by (elim impE exE conjE) (assumption, rule that)
  have raw: "raw = extract_0801" using r f by simp
  have q: "q = cleaned_0801" and rep: "rep = report_0801"
    using d dqc_extract_0801 by (simp_all add: raw)
  have g: "g = extract_0801" using l load_glob_world_0801 by simp
  have mf: "m = ''M''" "f = ''F''"
    using m f' resolve_cleaned_0801 by (simp_all add: q)
  have o': "mset (out ''healthcare_raw_data'') = mset (written_0801 ''healthcare_raw_data'')"
       "mset (out ''cleaning_report'') = mset (written_0801 ''cleaning_report'')"
       "mset (out ''disease_gender_ratio_data'') = mset (written_0801 ''disease_gender_ratio_data'')"
       "mset (out ''most_common_diseases_data'') = mset (written_0801 ''most_common_diseases_data'')"
       "mset (out ''age_category_data'') = mset (written_0801 ''age_category_data'')"
       "mset (out ''senior_citizen_flag_data'') = mset (written_0801 ''senior_citizen_flag_data'')"
       "mset (out ''disease_trend_over_the_week_data'')
          = mset (written_0801 ''disease_trend_over_the_week_data'')"
    using o unfolding raw q rep g mf rows_0801 collection_name_def
    by (simp_all flip: rows_0801(7))
  have all: "mset (out c) = mset (written_0801 c)" for c
  proof (cases "c \<in> set destinations")
    case True
    then have "c = ''healthcare_raw_data'' \<or> c = ''cleaning_report'' \<or>
        c = ''disease_gender_ratio_data'' \<or> c = ''most_common_diseases_data'' \<or>
        c = ''age_category_data'' \<or> c = ''senior_citizen_flag_data'' \<or>
        c = ''disease_trend_over_the_week_data''"
      unfolding destinations_def collection_name_def by simp
    then show ?thesis by (elim disjE) (simp_all only: o')
  next
    case False
    then show ?thesis using b by (simp add: written_0801_other)
  qed
  have s1: "store (fst (main text_engine ymd_lib world_0801)) = out"
    using a[rule_format, of "\<lambda>c. []"] by (simp add: w)
  have s2: "store (fst (main text_engine ymd_lib
             (world_0801\<lparr>store := store (fst (main text_engine ymd_lib world_0801))\<rparr>)))
          = (\<lambda>c. out c @ out c)"
    using c[rule_format, of "\<lambda>c. []"] by (simp add: w)
  show ?thesis
    unfolding s2 using main_world_0801_succeeds by (simp add: s1 all)
qed

text \<open>
  C8, as stated: no write overwrites a stored row and a rerun on the same input adds a second
  copy of every output row. With a file whose rows carry an \<^verbatim>\<open>_id\<close>, the raw collection
  holds each row once after the first run and still once after the rerun, and a stored
  document with the \<^verbatim>\<open>_id\<close> of a row of the file is replaced by that row.
\<close>

theorem rerun_replaces_rows_with_id:
  "mset (store (fst (main text_engine ymd_lib world_ids)) collection_name) =
     {#RawRow [(''_id'', Some ''1''), (''patient_id'', Some ''P1''), (''age'', Some ''30''),
              (''gender'', Some ''M''), (''diagnosis_code'', Some ''D123''),
              (''diagnosis_description'', Some ''Diabetes''),
              (''diagnosis_date'', Some ''2023-08-01'')],
      RawRow [(''_id'', Some ''2''), (''patient_id'', Some ''P2''), (''age'', Some ''41''),
              (''gender'', Some ''F''), (''diagnosis_code'', Some ''D123''),
              (''diagnosis_description'', Some ''Diabetes''),
              (''diagnosis_date'', Some ''2023-08-02'')]#} \<and>
   mset (store (fst (main text_engine ymd_lib
            (world_ids\<lparr>store := store (fst (main text_engine ymd_lib world_ids))\<rparr>)))
     collection_name)
     = mset (store (fst (main text_engine ymd_lib world_ids)) collection_name) \<and>
   mset (store (fst (main text_engine ymd_lib
            (world_ids\<lparr>store := (\<lambda>c. [RawRow [(''_id'', Some ''1''), (''patient_id'', Some ''P0'')]])\<rparr>)))
     collection_name)
     = mset (store (fst (main text_engine ymd_lib world_ids)) collection_name)"
proof -
  have f: "map_of (files (world_ids\<lparr>store := s\<rparr>)) (get_date_filepath (world_ids\<lparr>store := s\<rparr>))
             = Some extract_ids" for s
    by (simp add: world_ids_def world_0801_def get_date_filepath_def)
  have r: "store (fst (main text_engine ymd_lib (world_ids\<lparr>store := s\<rparr>))) collection_name =
      foldl write_document (s collection_name)
        (map (\<lambda>r. RawRow (zip (columns extract_ids) r)) (rows extract_ids))" for s
    using f[of s] by (simp add: main_raw_collection)
  have w: "world_ids\<lparr>store := (\<lambda>c. [])\<rparr> = world_ids"
    by (simp add: world_ids_def world_0801_def)
  have e1: "foldl write_document []
        (map (\<lambda>r. RawRow (zip (columns extract_ids) r)) (rows extract_ids)) =
     [RawRow [(''_id'', Some ''1''), (''patient_id'', Some ''P1''), (''age'', Some ''30''),
              (''gender'', Some ''M''), (''diagnosis_code'', Some ''D123''),
              (''diagnosis_description'', Some ''Diabetes''),
              (''diagnosis_date'', Some ''2023-08-01'')],
      RawRow [(''_id'', Some ''2''), (''patient_id'', Some ''P2''), (''age'', Some ''41''),
              (''gender'', Some ''F''), (''diagnosis_code'', Some ''D123''),
              (''diagnosis_description'', Some ''Diabetes''),
              (''diagnosis_date'', Some ''2023-08-02'')]]"
    by code_simp
  have e2: "foldl write_document
        (foldl write_document []
           (map (\<lambda>r. RawRow (zip (columns extract_ids) r)) (rows extract_ids)))
        (map (\<lambda>r. RawRow (zip (columns extract_ids) r)) (rows extract_ids)) =
      foldl write_document []
        (map (\<lambda>r. RawRow (zip (columns extract_ids) r)) (rows extract_ids))"
    by code_simp
  have e3: "foldl write_document [RawRow [(''_id'', Some ''1''), (''patient_id'', Some ''P0'')]]
        (map (\<lambda>r. RawRow (zip (columns extract_ids) r)) (rows extract_ids)) =
      foldl write_document []
        (map (\<lambda>r. RawRow (zip (columns extract_ids) r)) (rows extract_ids))"
    by code_simp
  have a: "store (fst (main text_engine ymd_lib world_ids)) collection_name =
      foldl write_document []
        (map (\<lambda>r. RawRow (zip (columns extract_ids) r)) (rows extract_ids))"
    using r[of "\<lambda>c. []"] by (simp add: w)
  show ?thesis
    unfolding r a e2 e3 by (simp add: e1)
qed

section \<open>What the aggregations read\<close>

lemma most_common_diseases_input:
  "\<exists>docs. \<forall>w. most_common_diseases df w =
        w\<lparr>store := mongo_append ''most_common_diseases_data'' docs (store w)\<rparr>"
  by (rule exI[of _ "most_common_diseases_rows df"]) (simp add: most_common_diseases_def)

lemma age_category_input:
  "\<exists>docs. \<forall>w. age_category df w =
        w\<lparr>store := mongo_append ''age_category_data'' docs (store w)\<rparr>"
  by (rule exI[of _ "age_category_rows df"]) (simp add: age_category_def)

lemma senior_citizen_flag_input:
  "\<exists>docs. \<forall>w. senior_citizen_flag df w =
        w\<lparr>store := mongo_append ''senior_citizen_flag_data'' docs (store w)\<rparr>"
  by (rule exI[of _ "senior_citizen_flag_rows df"]) (simp add: senior_citizen_flag_def)

lemma disease_gender_ratio_input:
  "(\<exists>e. \<forall>w. disease_gender_ratio df w = Inl e) \<or>
    (\<exists>docs. \<forall>w. disease_gender_ratio df w =
        Inr (w\<lparr>store := mongo_append ''disease_gender_ratio_data'' docs (store w)\<rparr>))"
proof (cases "resolve (''diagnosis_code'' # pivot_columns df) ''diagnosis_code''")
  case (Inl e)
  then have "\<forall>w. disease_gender_ratio df w = Inl e"
    by (simp add: disease_gender_ratio_def)
  then show ?thesis by (intro disjI1 exI)
next
  case c: (Inr c)
  show ?thesis
  proof (cases "resolve (''diagnosis_code'' # pivot_columns df) ''M''")
    case (Inl e)
    with c have "\<forall>w. disease_gender_ratio df w = Inl e"
      by (simp add: disease_gender_ratio_def)
    then show ?thesis by (intro disjI1 exI)
  next
    case m: (Inr m)
    show ?thesis
    proof (cases "resolve (''diagnosis_code'' # pivot_columns df) ''F''")
      case (Inl e)
      with c m have "\<forall>w. disease_gender_ratio df w = Inl e"
        by (simp add: disease_gender_ratio_def)
      then show ?thesis by (intro disjI1 exI)
    next
      case (Inr f)
      with c m have "\<forall>w. disease_gender_ratio df w =
          Inr (w\<lparr>store := mongo_append ''disease_gender_ratio_data''
                 (gender_ratio_rows df m f) (store w)\<rparr>)"
        by (simp add: disease_gender_ratio_def)
      then show ?thesis by (intro disjI2 exI)
    qed
  qed
qed

lemma disease_trend_over_the_week_input:
  assumes "files w' = files w \<and> file_path w' = file_path w"
  shows "(\<exists>e. disease_trend_over_the_week eng w = Inl e \<and>
           disease_trend_over_the_week eng w' = Inl e) \<or>
      (\<exists>docs.
         disease_trend_over_the_week eng w =
           Inr (w\<lparr>store := mongo_append ''disease_trend_over_the_week_data'' docs (store w)\<rparr>) \<and>
         disease_trend_over_the_week eng w' =
           Inr (w'\<lparr>store := mongo_append ''disease_trend_over_the_week_data'' docs (store w')\<rparr>))"
proof -
  from assms have l: "load_glob w' = load_glob w" by (intro load_glob_cong) simp_all
  show ?thesis
  proof (cases "load_glob w")
    case (Inl e)
    then have "disease_trend_over_the_week eng w = Inl e \<and>
               disease_trend_over_the_week eng w' = Inl e"
      by (simp add: disease_trend_over_the_week_def l)
    then show ?thesis by (intro disjI1 exI)
  next
    case (Inr df)
    show ?thesis
    proof (cases "''diagnosis_date'' \<in> set (columns df) \<and>
                  ''diagnosis_description'' \<in> set (columns df)")
      case True
      with Inr have "disease_trend_over_the_week eng w =
           Inr (w\<lparr>store := mongo_append ''disease_trend_over_the_week_data''
                  (disease_trend_rows eng df) (store w)\<rparr>) \<and>
        disease_trend_over_the_week eng w' =
           Inr (w'\<lparr>store := mongo_append ''disease_trend_over_the_week_data''
                  (disease_trend_rows eng df) (store w')\<rparr>)"
        by (simp add: disease_trend_over_the_week_def l)
      then show ?thesis by (intro disjI2 exI)
    next
      case False
      with Inr have "disease_trend_over_the_week eng w =
          Inl (if ''diagnosis_date'' \<notin> set (columns df) then AnalysisException ''diagnosis_date''
               else AnalysisException ''diagnosis_description'') \<and>
        disease_trend_over_the_week eng w' =
          Inl (if ''diagnosis_date'' \<notin> set (columns df) then AnalysisException ''diagnosis_date''
               else AnalysisException ''diagnosis_description'')"
        by (simp add: disease_trend_over_the_week_def l)
      then show ?thesis by (intro disjI1 exI)
    qed
  qed
qed

text \<open>
  C5, amended. Four aggregations (most common diseases, age category, senior citizen flag,
  disease gender ratio) are read-only functions of the cleaned table: the rows each appends
  to its collection, or the error it raises, are determined by the cleaned table alone,
  and it changes nothing else; the table, a value, is not changed. The fifth, the disease
  trend over the week, does not read the cleaned table: what it appends or raises is
  determined by the files matching the glob under \<^verbatim>\<open>file_path\<close>, and is the same in any
  two states with the same files and the same \<^verbatim>\<open>file_path\<close>.
\<close>

theorem aggregations_inputs:
  "(\<exists>docs. \<forall>w. most_common_diseases df w =
        w\<lparr>store := mongo_append ''most_common_diseases_data'' docs (store w)\<rparr>) \<and>
   (\<exists>docs. \<forall>w. age_category df w =
        w\<lparr>store := mongo_append ''age_category_data'' docs (store w)\<rparr>) \<and>
   (\<exists>docs. \<forall>w. senior_citizen_flag df w =
        w\<lparr>store := mongo_append ''senior_citizen_flag_data'' docs (store w)\<rparr>) \<and>
   ((\<exists>e. \<forall>w. disease_gender_ratio df w = Inl e) \<or>
    (\<exists>docs. \<forall>w. disease_gender_ratio df w =
        Inr (w\<lparr>store := mongo_append ''disease_gender_ratio_data'' docs (store w)\<rparr>))) \<and>
   (\<forall>w w'. files w' = files w \<and> file_path w' = file_path w \<longrightarrow>
      (\<exists>e. disease_trend_over_the_week eng w = Inl e \<and>
           disease_trend_over_the_week eng w' = Inl e) \<or>
      (\<exists>docs.
         disease_trend_over_the_week eng w =
           Inr (w\<lparr>store := mongo_append ''disease_trend_over_the_week_data'' docs (store w)\<rparr>) \<and>
         disease_trend_over_the_week eng w' =
           Inr (w'\<lparr>store := mongo_append ''disease_trend_over_the_week_data'' docs (store w')\<rparr>)))"
  by (intro conjI allI impI most_common_diseases_input age_category_input
      senior_citizen_flag_input disease_gender_ratio_input disease_trend_over_the_week_input)
    (erule conjunct1, erule conjunct2)

theorem aggregations_inputs_witness:
  "files world_0803 = files world_0801 \<and> file_path world_0803 = file_path world_0801 \<and>
   ((\<exists>e. disease_trend_over_the_week text_engine world_0801 = Inl e \<and>
         disease_trend_over_the_week text_engine world_0803 = Inl e) \<or>
    (\<exists>docs.
       disease_trend_over_the_week text_engine world_0801 =
         Inr (world_0801\<lparr>store := mongo_append ''disease_trend_over_the_week_data'' docs
                                      (store world_0801)\<rparr>) \<and>
       disease_trend_over_the_week text_engine world_0803 =
         Inr (world_0803\<lparr>store := mongo_append ''disease_trend_over_the_week_data'' docs
                                      (store world_0803)\<rparr>)))"
proof -
  have h: "files world_0803 = files world_0801 \<and> file_path world_0803 = file_path world_0801"
    by (simp add: world_0803_def)
  note t = aggregations_inputs[of cleaned_0801 text_engine, THEN conjunct2, THEN conjunct2,
      THEN conjunct2, THEN conjunct2, rule_format, OF h]
  show ?thesis using h h t by (rule conjI[OF conjunct1 conjI[OF conjunct2]])
qed

lemma glob_match_0731: "glob_match ''/data/'' ''/data/health_data_20230731.csv''"
  by code_simp

lemma trend_rows_0801:
  "disease_trend_rows text_engine extract_0801 =
     [DiseaseTrend (Some ''Hypertension'') None 1, DiseaseTrend (Some ''Diabetes'') (Some 3) 1,
      DiseaseTrend (Some ''Hypertension'') (Some 3) 1, DiseaseTrend (Some ''Diabetes'') (Some 4) 1]"
  by code_simp

lemma trend_rows_two_files:
  "disease_trend_rows text_engine
     \<lparr>columns = columns extract_0731, rows = rows extract_0731 @ rows extract_0801\<rparr> =
     [DiseaseTrend (Some ''Hypertension'') None 1, DiseaseTrend (Some ''Cancer'') (Some 2) 1,
      DiseaseTrend (Some ''Diabetes'') (Some 3) 1, DiseaseTrend (Some ''Hypertension'') (Some 3) 1,
      DiseaseTrend (Some ''Diabetes'') (Some 4) 1]"
  by code_simp

text \<open>
  C5, as stated: the disease trend over the week is a function of the cleaned table and
  reads no other input. In two states with the same file for today, hence the same cleaned
  table, it appends different rows, because the second state has one more file under
  \<^verbatim>\<open>file_path\<close>.
\<close>

theorem trend_reads_every_file:
  "map_of (files world_0801) (get_date_filepath world_0801) = Some extract_0801 \<and>
   map_of (files world_two_files) (get_date_filepath world_two_files) = Some extract_0801 \<and>
   data_quality_check text_engine extract_0801 = Inr (cleaned_0801, report_0801) \<and>
   disease_trend_over_the_week text_engine world_0801 =
     Inr (world_0801\<lparr>store := mongo_append ''disease_trend_over_the_week_data''
            [DiseaseTrend (Some ''Hypertension'') None 1,
             DiseaseTrend (Some ''Diabetes'') (Some 3) 1,
             DiseaseTrend (Some ''Hypertension'') (Some 3) 1,
             DiseaseTrend (Some ''Diabetes'') (Some 4) 1]
            (store world_0801)\<rparr>) \<and>
   disease_trend_over_the_week text_engine world_two_files =
     Inr (world_two_files\<lparr>store := mongo_append ''disease_trend_over_the_week_data''
            [DiseaseTrend (Some ''Hypertension'') None 1,
             DiseaseTrend (Some ''Cancer'') (Some 2) 1,
             DiseaseTrend (Some ''Diabetes'') (Some 3) 1,
             DiseaseTrend (Some ''Hypertension'') (Some 3) 1,
             DiseaseTrend (Some ''Diabetes'') (Some 4) 1]
            (store world_two_files)\<rparr>)"
proof -
  have a: "map_of (files world_0801) (get_date_filepath world_0801) = Some extract_0801"
    by (simp add: world_0801_def get_date_filepath_def)
  have b: "map_of (files world_two_files) (get_date_filepath world_two_files) = Some extract_0801"
    by (simp add: world_two_files_def world_0801_def get_date_filepath_def)
  note l1 = load_glob_world_0801
  have l2: "load_glob world_two_files =
      Inr \<lparr>columns = columns extract_0731, rows = rows extract_0731 @ rows extract_0801\<rparr>"
    using glob_match_0801 glob_match_0731
    by (simp add: load_glob_def world_two_files_def world_0801_def)
  have c: "''diagnosis_date'' \<in> set (columns extract_0801)"
    "''diagnosis_description'' \<in> set (columns extract_0801)"
    "''diagnosis_date'' \<in> set (columns extract_0731)"
    "''diagnosis_description'' \<in> set (columns extract_0731)"
    by (simp_all add: extract_0801_def extract_0731_def)
  have t1: "disease_trend_over_the_week text_engine world_0801 =
     Inr (world_0801\<lparr>store := mongo_append ''disease_trend_over_the_week_data''
            (disease_trend_rows text_engine extract_0801) (store world_0801)\<rparr>)"
    using c by (simp add: disease_trend_over_the_week_def l1)
  have t2: "disease_trend_over_the_week text_engine world_two_files =
     Inr (world_two_files\<lparr>store := mongo_append ''disease_trend_over_the_week_data''
            (disease_trend_rows text_engine
               \<lparr>columns = columns extract_0731, rows = rows extract_0731 @ rows extract_0801\<rparr>)
            (store world_two_files)\<rparr>)"
    using c by (simp add: disease_trend_over_the_week_def l2)
  show ?thesis
    using a b dqc_extract_0801 t1 t2 unfolding trend_rows_0801 trend_rows_two_files
    by (intro conjI)
qed

section \<open>The calendar and the rounding\<close>

lemma days_before_december:
  "sum_list (map (days_in_month y) [Suc 0..<12]) = 334 + (if is_leap y then 1 else 0)"
proof -
  have "[Suc 0..<12] = [1, 2, 3, 4, 5, 6, 7, 8, 9, 10, 11 :: nat]" by code_simp
  then show ?thesis by (simp add: days_in_month_def)
qed

text \<open>Stepping from \<open>y - 1\<close> to \<open>y\<close> raises the quotient by \<open>k\<close> exactly at the multiples of \<open>k\<close>.\<close>

lemma div_pred:
  fixes y k :: int
  assumes "0 < k"
  shows "y div k = (y - 1) div k + (if k dvd y then 1 else 0)"
proof (cases "k dvd y")
  case True
  then obtain q where q: "y = k * q" by (auto simp: dvd_def)
  have "y - 1 = (k - 1) + (q - 1) * k" by (simp add: q algebra_simps)
  then have "(y - 1) div k = (k - 1 + (q - 1) * k) div k" by (simp only:)
  also have "\<dots> = (q - 1) + (k - 1) div k"
    by (rule div_mult_self1) (use assms in simp)
  also have "(k - 1) div k = 0" using assms by (simp add: div_pos_pos_trivial)
  finally show ?thesis using True assms by (simp add: q)
next
  case False
  then have r: "1 \<le> y mod k" "y mod k < k"
    using assms by (simp_all add: dvd_eq_mod_eq_0 order_neq_le_trans int_one_le_iff_zero_less)
  have "y - 1 = (y mod k - 1) + (y div k) * k" by (simp add: algebra_simps)
  then have "(y - 1) div k = (y mod k - 1 + (y div k) * k) div k" by (simp only:)
  also have "\<dots> = y div k + (y mod k - 1) div k"
    by (rule div_mult_self1) (use assms in simp)
  also have "(y mod k - 1) div k = 0" using r by (simp add: div_pos_pos_trivial)
  finally show ?thesis using False by simp
qed

lemma leap_day_count:
  "int y div 4 - int y div 100 + int y div 400 =
     (int y - 1) div 4 - (int y - 1) div 100 + (int y - 1) div 400
     + (if is_leap y then 1 else 0)"
proof -
  have e: "(int y mod 4 = 0) = (y mod 4 = 0)" "(int y mod 100 = 0) = (y mod 100 = 0)"
    "(int y mod 400 = 0) = (y mod 400 = 0)"
    using of_nat_eq_0_iff[of "y mod 4", where ?'a = int]
      of_nat_eq_0_iff[of "y mod 100", where ?'a = int]
      of_nat_eq_0_iff[of "y mod 400", where ?'a = int]
    by (simp_all add: zmod_int)
  have l: "is_leap y \<longleftrightarrow> (4::int) dvd int y \<and> (\<not> (100::int) dvd int y \<or> (400::int) dvd int y)"
    unfolding is_leap_def by (simp add: dvd_eq_mod_eq_0 e)
  have a: "(400::int) dvd int y \<Longrightarrow> (100::int) dvd int y"
    by (rule dvd_trans[of 100 400]) simp_all
  have b: "(100::int) dvd int y \<Longrightarrow> (4::int) dvd int y"
    by (rule dvd_trans[of 4 100]) simp_all
  have d: "int y div 4 = (int y - 1) div 4 + (if 4 dvd int y then 1 else 0)"
    "int y div 100 = (int y - 1) div 100 + (if 100 dvd int y then 1 else 0)"
    "int y div 400 = (int y - 1) div 400 + (if 400 dvd int y then 1 else 0)"
    by (rule div_pred, simp)+
  show ?thesis
  proof (cases "(400::int) dvd int y")
    case True
    with a b show ?thesis by (simp add: d l)
  next
    case n400: False
    show ?thesis
    proof (cases "(100::int) dvd int y")
      case True
      with b n400 show ?thesis by (simp add: d l)
    next
      case False
      with n400 show ?thesis by (simp add: d l)
    qed
  qed
qed

text \<open>Adding a day in the calendar raises the day number by one and keeps the date valid.\<close>

lemma ymd_plus_one_day_ordinal:
  assumes "valid_date t" and "ymd_plus_one_day t = Inr t'"
  shows "ordinal t' = ordinal t + 1 \<and> valid_date t'"
proof -
  obtain y m d where t: "t = (y, m, d)" by (cases t) auto
  from assms(1) have v: "1 \<le> y" "y \<le> 9999" "1 \<le> m" "m \<le> 12" "1 \<le> d" "d \<le> days_in_month y m"
    by (auto simp: valid_date_def t)
  consider (day) "d < days_in_month y m" | (month) "d = days_in_month y m" "m < 12"
    | (year) "d = days_in_month y m" "m = 12"
    using v by linarith
  then show ?thesis
  proof cases
    case day
    then have "t' = (y, m, d + 1)" using assms(2) by (simp add: ymd_plus_one_day_def t)
    then show ?thesis using v day by (simp add: ordinal_def valid_date_def t)
  next
    case month
    then have t': "t' = (y, m + 1, 1)" using assms(2) by (simp add: ymd_plus_one_day_def t)
    have "1 \<le> days_in_month y (m + 1)" by (simp add: days_in_month_def)
    then show ?thesis using v month by (simp add: ordinal_def valid_date_def t t')
  next
    case year
    then have y: "y < 9999" and t': "t' = (y + 1, 1, 1)"
      using assms(2) by (auto simp: ymd_plus_one_day_def t split: if_splits)
    have d: "d = 31" using year by (simp add: days_in_month_def)
    have o: "ordinal t = 365 * (int y - 1) + (int y - 1) div 4 - (int y - 1) div 100
               + (int y - 1) div 400 + 334 + (if is_leap y then 1 else 0) + 31"
      by (simp add: ordinal_def t year(2) d days_before_december)
    have o': "ordinal t' = 365 * int y + int y div 4 - int y div 100 + int y div 400 + 1"
      by (simp add: ordinal_def t')
    have "ordinal t' = ordinal t + 1"
      unfolding o o' using leap_day_count[of y] by (simp split: if_splits)
    then show ?thesis using y by (simp add: valid_date_def t' days_in_month_def)
  qed
qed

text \<open>Rounding to \<open>d\<close> decimal places moves a value by at most half a unit of the last place.\<close>

lemma round_half_up_close: "\<bar>round_half_up q d - q\<bar> \<le> 1 / (2 * 10 ^ d)"
proof -
  define p :: rat where "p = 10 ^ d"
  have p: "0 < p" by (simp add: p_def)
  have "\<bar>of_int \<lfloor>q * p + 1 / 2\<rfloor> - q * p\<bar> \<le> 1 / 2"
    by linarith
  moreover have "\<bar>of_int \<lceil>q * p - 1 / 2\<rceil> - q * p\<bar> \<le> 1 / 2"
    by linarith
  ultimately have "\<bar>round_half_up q d * p - q * p\<bar> \<le> 1 / 2"
    using p by (simp add: round_half_up_def p_def)
  moreover have "round_half_up q d * p - q * p = (round_half_up q d - q) * p"
    by (simp add: algebra_simps)
  ultimately have "\<bar>round_half_up q d - q\<bar> * p \<le> 1 / 2"
    using p by (simp add: abs_mult)
  then show ?thesis using p by (simp add: p_def field_simps)
qed

end
